theory Spec2Isabelle
  imports Complex_Main "HOL-Library.Log_Nat"
begin

section \<open>Python values as the handler sees them\<close>

text \<open>
  The program is \<^verbatim>\<open>backend/config/api/views.py\<close>: the helper \<^verbatim>\<open>tmap_geocode\<close> and the
  method \<^verbatim>\<open>TravelAPIView.get\<close>. Everything it computes with is either a Python
  \<^verbatim>\<open>str\<close>, or a value produced by \<^verbatim>\<open>resp.json()\<close>, or a dict/list it builds from
  those. A \<^verbatim>\<open>str\<close> is a sequence of Unicode code points; a decoded JSON document is
  \<^verbatim>\<open>None\<close>, a \<^verbatim>\<open>bool\<close>, an unbounded \<^verbatim>\<open>int\<close>, a \<^verbatim>\<open>float\<close> (IEEE binary64), a
  \<^verbatim>\<open>str\<close>, a \<^verbatim>\<open>list\<close> or a \<^verbatim>\<open>dict\<close> with \<^verbatim>\<open>str\<close> keys (insertion ordered, keys
  distinct).
\<close>

type_synonym ustr = "nat list"

definition u :: "string \<Rightarrow> ustr" where
  "u s = map of_char s"

text \<open>
  A finite binary64 value is kept as the rational it denotes; \<open>Fin 0\<close> is \<^verbatim>\<open>0.0\<close> and
  \<open>NegZero\<close> is \<^verbatim>\<open>-0.0\<close>.
\<close>

datatype pyfloat = Fin rat | NegZero | PosInf | NegInf | NaN

datatype json =
    JNull
  | JBool bool
  | JInt int
  | JFloat pyfloat
  | JStr ustr
  | JArr "json list"
  | JObj "(ustr \<times> json) list"

datatype exn =
    TypeError | ValueError | KeyError | IndexError | AttributeError | OverflowError
  | RequestException | HTTPError | JSONDecodeError

text \<open>Sequencing of computations that may raise: the first exception wins.\<close>

definition bind_exn :: "exn + 'a \<Rightarrow> ('a \<Rightarrow> exn + 'b) \<Rightarrow> exn + 'b" where
  "bind_exn m f = (case m of Inl e \<Rightarrow> Inl e | Inr v \<Rightarrow> f v)"

text \<open>
  Three builtins depend on the Unicode character database (which characters are
  printable, which are decimal digits): \<^verbatim>\<open>repr\<close> of a \<^verbatim>\<open>str\<close>, \<^verbatim>\<open>int\<close> of a \<^verbatim>\<open>str\<close> and
  \<^verbatim>\<open>float\<close> of a \<^verbatim>\<open>str\<close>. They are parameters of the model; \<open>None\<close> stands for
  \<^verbatim>\<open>ValueError\<close>. Every theorem below holds for all values of these parameters.
\<close>

record pyrt =
  str_repr :: "ustr \<Rightarrow> ustr"
  str_to_int :: "ustr \<Rightarrow> int option"
  str_to_float :: "ustr \<Rightarrow> pyfloat option"

subsection \<open>Binary64 arithmetic\<close>

definition pow2 :: "int \<Rightarrow> rat" where
  "pow2 e = (if 0 \<le> e then 2 ^ nat e else 1 / 2 ^ nat (- e))"

definition pow10 :: "int \<Rightarrow> rat" where
  "pow10 e = (if 0 \<le> e then 10 ^ nat e else 1 / 10 ^ nat (- e))"

text \<open>Round to the nearest integer, ties to the even one.\<close>

definition rne :: "rat \<Rightarrow> int" where
  "rne q = (let f = \<lfloor>q\<rfloor>; r = q - of_int f
            in if r < 1 / 2 then f else if 1 / 2 < r then f + 1
               else if even f then f else f + 1)"

text \<open>\<open>ilog2 q\<close> is \<open>\<lfloor>log\<^sub>2 q\<rfloor>\<close> for \<open>q > 0\<close>.\<close>

definition ilog2 :: "rat \<Rightarrow> int" where
  "ilog2 q = (case quotient_of q of (a, b) \<Rightarrow>
     (let e = bitlen a - bitlen b in if pow2 e \<le> q then e else e - 1))"

text \<open>
  The binary64 value nearest to \<open>q > 0\<close> (53-bit significand, least exponent \<open>-1022\<close>,
  gradual underflow, ties to even); \<open>None\<close> when the rounded value does not fit.
\<close>

definition fl_mag :: "rat \<Rightarrow> rat option" where
  "fl_mag q = (let e = max (ilog2 q) (- 1022); ulp = pow2 (e - 52);
                   r = of_int (rne (q / ulp)) * ulp
               in if pow2 1024 \<le> r then None else Some r)"

definition fl :: "rat \<Rightarrow> pyfloat" where
  "fl q = (if 0 < q then (case fl_mag q of None \<Rightarrow> PosInf | Some r \<Rightarrow> Fin r)
           else if q < 0 then
             (case fl_mag (- q) of None \<Rightarrow> NegInf
              | Some r \<Rightarrow> if r = 0 then NegZero else Fin (- r))
           else Fin 0)"

text \<open>\<^verbatim>\<open>float(n)\<close> and \<^verbatim>\<open>a / b\<close> for ints (\<open>b > 0\<close>): correctly rounded, or \<^verbatim>\<open>OverflowError\<close>.\<close>

definition int_to_float :: "int \<Rightarrow> exn + pyfloat" where
  "int_to_float n = (case fl (of_int n) of
       PosInf \<Rightarrow> Inl OverflowError | NegInf \<Rightarrow> Inl OverflowError | x \<Rightarrow> Inr x)"

definition int_truediv :: "int \<Rightarrow> int \<Rightarrow> exn + pyfloat" where
  "int_truediv a b = (case fl (of_int a / of_int b) of
       PosInf \<Rightarrow> Inl OverflowError | NegInf \<Rightarrow> Inl OverflowError | x \<Rightarrow> Inr x)"

text \<open>\<^verbatim>\<open>x / n\<close> and \<^verbatim>\<open>x * n\<close> for a float \<open>x\<close> and an int \<open>n > 0\<close> that converts exactly.\<close>

definition float_div_int :: "pyfloat \<Rightarrow> int \<Rightarrow> pyfloat" where
  "float_div_int x n = (case x of Fin q \<Rightarrow> fl (q / of_int n) | y \<Rightarrow> y)"

definition float_mul_int :: "pyfloat \<Rightarrow> int \<Rightarrow> pyfloat" where
  "float_mul_int x n = (case x of Fin q \<Rightarrow> fl (q * of_int n) | y \<Rightarrow> y)"

text \<open>
  \<^verbatim>\<open>x // n\<close> for a float \<open>x\<close> and an int \<open>n > 0\<close> that converts exactly: CPython's
  \<^verbatim>\<open>_float_div_mod\<close> (\<^verbatim>\<open>fmod\<close>, divide, adjust the sign of the remainder, snap the
  quotient to an integer).
\<close>

definition float_floordiv_int :: "pyfloat \<Rightarrow> int \<Rightarrow> pyfloat" where
  "float_floordiv_int x n = (case x of
       Fin q \<Rightarrow>
         (if q = 0 then Fin 0
          else let w = of_int n;
                   t = (if 0 \<le> q then of_int \<lfloor>q / w\<rfloor> else - of_int \<lfloor>- q / w\<rfloor>);
                   md = q - w * t;
                   d0 = (case fl (q - md) of Fin a \<Rightarrow> fl (a / w) | y \<Rightarrow> y);
                   d = (if md < 0 then (case d0 of Fin a \<Rightarrow> fl (a - 1) | y \<Rightarrow> y) else d0)
               in (case d of
                     Fin a \<Rightarrow>
                       (if a = 0 then (if 0 < q then Fin 0 else NegZero)
                        else let f = of_int \<lfloor>a\<rfloor>
                             in (case fl (a - f) of
                                   Fin r \<Rightarrow> if 1 / 2 < r then fl (f + 1) else Fin f
                                 | _ \<Rightarrow> Fin f))
                   | NegZero \<Rightarrow> (if 0 < q then Fin 0 else NegZero)
                   | y \<Rightarrow> y))
     | NegZero \<Rightarrow> NegZero
     | _ \<Rightarrow> NaN)"

text \<open>\<^verbatim>\<open>round(x, 1)\<close>: the exact value is rounded to one decimal, ties to even.\<close>

definition round1 :: "pyfloat \<Rightarrow> pyfloat" where
  "round1 x = (case x of
       Fin q \<Rightarrow> (let k = rne (q * 10)
                 in if k = 0 then (if q < 0 then NegZero else Fin 0) else fl (of_int k / 10))
     | y \<Rightarrow> y)"

text \<open>\<^verbatim>\<open>int(x)\<close> for a float: truncation towards zero.\<close>

definition float_to_int :: "pyfloat \<Rightarrow> exn + int" where
  "float_to_int x = (case x of
       Fin q \<Rightarrow> Inr (if 0 \<le> q then \<lfloor>q\<rfloor> else - \<lfloor>- q\<rfloor>)
     | NegZero \<Rightarrow> Inr 0
     | NaN \<Rightarrow> Inl ValueError
     | _ \<Rightarrow> Inl OverflowError)"

subsection \<open>Text\<close>

text \<open>The characters \<^verbatim>\<open>str.strip()\<close> removes (\<^verbatim>\<open>str.isspace\<close>).\<close>

definition isspace :: "nat \<Rightarrow> bool" where
  "isspace c \<longleftrightarrow> (9 \<le> c \<and> c \<le> 13) \<or> (28 \<le> c \<and> c \<le> 32) \<or> c = 133 \<or> c = 160
     \<or> c = 5760 \<or> (8192 \<le> c \<and> c \<le> 8202) \<or> c = 8232 \<or> c = 8233 \<or> c = 8239
     \<or> c = 8287 \<or> c = 12288"

definition strip :: "ustr \<Rightarrow> ustr" where
  "strip s = rev (dropWhile isspace (rev (dropWhile isspace s)))"

function digits :: "int \<Rightarrow> ustr" where
  "digits n = (if n < 10 then [nat (48 + n)] else digits (n div 10) @ [nat (48 + n mod 10)])"
  by pat_completeness auto
termination
  by (relation "measure nat") auto

declare digits.simps [simp del]

text \<open>\<^verbatim>\<open>str(i)\<close> for an int.\<close>

definition str_int :: "int \<Rightarrow> ustr" where
  "str_int i = (if i < 0 then 45 # digits (- i) else digits i)"

fun join :: "ustr \<Rightarrow> ustr list \<Rightarrow> ustr" where
  "join sep [] = []"
| "join sep [x] = x"
| "join sep (x # y # ys) = x @ sep @ join sep (y # ys)"

subsection \<open>\<^verbatim>\<open>repr\<close> of a float\<close>

text \<open>
  \<^verbatim>\<open>repr(x)\<close> prints the shortest decimal that reads back as \<open>x\<close> (the nearest to \<open>x\<close>
  among the shortest), in positional notation when the decimal point position
  \<open>p\<close> satisfies \<open>-4 < p \<le> 16\<close> and in exponent notation otherwise.
\<close>

text \<open>\<open>decpt q\<close> is the least \<open>p\<close> with \<open>q < 10\<^sup>p\<close>, for a binary64 \<open>q > 0\<close>.\<close>

definition decpt :: "rat \<Rightarrow> int" where
  "decpt q = (let p0 = (ilog2 q * 30103) div 100000
              in (case find (\<lambda>p. q < pow10 p) [p0 - 1, p0, p0 + 1, p0 + 2, p0 + 3] of
                    Some p \<Rightarrow> p | None \<Rightarrow> p0 + 4))"

text \<open>The decimals with \<open>n\<close> significant digits next to \<open>x\<close> that read back as \<open>x\<close>.\<close>

definition cand :: "rat \<Rightarrow> int \<Rightarrow> nat \<Rightarrow> rat option" where
  "cand x p n = (let s = pow10 (p - int n); k = \<lfloor>x / s\<rfloor>; lo = of_int k * s; hi = lo + s;
                     oklo = (fl lo = Fin x); okhi = (fl hi = Fin x)
                 in if oklo \<and> okhi then
                      Some (if x - lo < hi - x then lo else if hi - x < x - lo then hi
                            else if even k then lo else hi)
                    else if oklo then Some lo
                    else if okhi then Some hi
                    else None)"

fun shortest_from :: "rat \<Rightarrow> int \<Rightarrow> nat \<Rightarrow> nat \<Rightarrow> rat" where
  "shortest_from x p n 0 = x"
| "shortest_from x p n (Suc k) =
     (case cand x p n of Some v \<Rightarrow> v | None \<Rightarrow> shortest_from x p (Suc n) k)"

definition shortest :: "rat \<Rightarrow> rat" where
  "shortest x = shortest_from x (decpt x) 1 17"

definition repr_pos :: "rat \<Rightarrow> ustr" where
  "repr_pos x = (let v = shortest x; p = decpt v;
                     ds = rev (dropWhile (\<lambda>c. c = 48) (rev (digits \<lfloor>v * pow10 (17 - p)\<rfloor>)));
                     n = int (length ds)
                 in if p \<le> - 4 \<or> 16 < p then
                      take 1 ds @ (if 1 < n then 46 # drop 1 ds else [])
                      @ [101, if p - 1 < 0 then 45 else 43]
                      @ (if \<bar>p - 1\<bar> < 10 then [48] else []) @ digits \<bar>p - 1\<bar>
                    else if p \<le> 0 then [48, 46] @ replicate (nat (- p)) 48 @ ds
                    else if p < n then take (nat p) ds @ [46] @ drop (nat p) ds
                    else ds @ replicate (nat (p - n)) 48 @ [46, 48])"

definition repr_float :: "pyfloat \<Rightarrow> ustr" where
  "repr_float x = (case x of
       Fin q \<Rightarrow> (if q = 0 then u ''0.0'' else if 0 < q then repr_pos q else 45 # repr_pos (- q))
     | NegZero \<Rightarrow> u ''-0.0''
     | PosInf \<Rightarrow> u ''inf''
     | NegInf \<Rightarrow> u ''-inf''
     | NaN \<Rightarrow> u ''nan'')"

subsection \<open>Operations on values\<close>

text \<open>Truth value testing (\<^verbatim>\<open>if x\<close>, \<^verbatim>\<open>not x\<close>, \<^verbatim>\<open>x or y\<close>).\<close>

fun truthy :: "json \<Rightarrow> bool" where
  "truthy JNull = False"
| "truthy (JBool b) = b"
| "truthy (JInt n) = (n \<noteq> 0)"
| "truthy (JFloat x) = (x \<noteq> Fin 0 \<and> x \<noteq> NegZero)"
| "truthy (JStr s) = (s \<noteq> [])"
| "truthy (JArr xs) = (xs \<noteq> [])"
| "truthy (JObj kvs) = (kvs \<noteq> [])"

definition py_or :: "json \<Rightarrow> json \<Rightarrow> json" where
  "py_or x y = (if truthy x then x else y)"

text \<open>\<^verbatim>\<open>x.get(k, dflt)\<close>: only a dict has the method.\<close>

definition dict_get :: "json \<Rightarrow> ustr \<Rightarrow> json \<Rightarrow> exn + json" where
  "dict_get x k dflt = (case x of
       JObj kvs \<Rightarrow> Inr (case map_of kvs k of Some v \<Rightarrow> v | None \<Rightarrow> dflt)
     | _ \<Rightarrow> Inl AttributeError)"

text \<open>\<^verbatim>\<open>x[k]\<close> for a \<^verbatim>\<open>str\<close> key \<open>k\<close>.\<close>

definition getitem_key :: "json \<Rightarrow> ustr \<Rightarrow> exn + json" where
  "getitem_key x k = (case x of
       JObj kvs \<Rightarrow> (case map_of kvs k of Some v \<Rightarrow> Inr v | None \<Rightarrow> Inl KeyError)
     | _ \<Rightarrow> Inl TypeError)"

text \<open>\<^verbatim>\<open>x[0]\<close>. The keys of a decoded JSON object are strings, so \<open>0\<close> is never one.\<close>

definition getitem0 :: "json \<Rightarrow> exn + json" where
  "getitem0 x = (case x of
       JArr xs \<Rightarrow> (case xs of [] \<Rightarrow> Inl IndexError | y # _ \<Rightarrow> Inr y)
     | JStr s \<Rightarrow> (case s of [] \<Rightarrow> Inl IndexError | c # _ \<Rightarrow> Inr (JStr [c]))
     | JObj kvs \<Rightarrow> Inl KeyError
     | _ \<Rightarrow> Inl TypeError)"

text \<open>The items \<^verbatim>\<open>for y in x\<close> visits.\<close>

definition iterate :: "json \<Rightarrow> exn + json list" where
  "iterate x = (case x of
       JArr xs \<Rightarrow> Inr xs
     | JStr s \<Rightarrow> Inr (map (\<lambda>c. JStr [c]) s)
     | JObj kvs \<Rightarrow> Inr (map (\<lambda>kv. JStr (fst kv)) kvs)
     | _ \<Rightarrow> Inl TypeError)"

text \<open>The unpacking \<^verbatim>\<open>a, b = x\<close>.\<close>

definition unpack2 :: "json \<Rightarrow> exn + json \<times> json" where
  "unpack2 x = (case iterate x of
       Inl e \<Rightarrow> Inl e
     | Inr ys \<Rightarrow> (case ys of [a, b] \<Rightarrow> Inr (a, b) | _ \<Rightarrow> Inl ValueError))"

text \<open>\<^verbatim>\<open>int(x)\<close> and \<^verbatim>\<open>float(x)\<close>.\<close>

definition py_int :: "pyrt \<Rightarrow> json \<Rightarrow> exn + int" where
  "py_int rt x = (case x of
       JInt n \<Rightarrow> Inr n
     | JBool b \<Rightarrow> Inr (if b then 1 else 0)
     | JFloat f \<Rightarrow> float_to_int f
     | JStr s \<Rightarrow> (case str_to_int rt s of Some n \<Rightarrow> Inr n | None \<Rightarrow> Inl ValueError)
     | _ \<Rightarrow> Inl TypeError)"

definition py_float :: "pyrt \<Rightarrow> json \<Rightarrow> exn + pyfloat" where
  "py_float rt x = (case x of
       JFloat f \<Rightarrow> Inr f
     | JInt n \<Rightarrow> int_to_float n
     | JBool b \<Rightarrow> Inr (Fin (if b then 1 else 0))
     | JStr s \<Rightarrow> (case str_to_float rt s of Some f \<Rightarrow> Inr f | None \<Rightarrow> Inl ValueError)
     | _ \<Rightarrow> Inl TypeError)"

text \<open>\<^verbatim>\<open>x // 60\<close> and \<^verbatim>\<open>x / 1000\<close> for a decoded value \<open>x\<close>.\<close>

definition py_floordiv60 :: "json \<Rightarrow> exn + json" where
  "py_floordiv60 x = (case x of
       JInt n \<Rightarrow> Inr (JInt (n div 60))
     | JBool b \<Rightarrow> Inr (JInt 0)
     | JFloat f \<Rightarrow> Inr (JFloat (float_floordiv_int f 60))
     | _ \<Rightarrow> Inl TypeError)"

definition py_truediv1000 :: "json \<Rightarrow> exn + pyfloat" where
  "py_truediv1000 x = (case x of
       JInt n \<Rightarrow> int_truediv n 1000
     | JBool b \<Rightarrow> int_truediv (if b then 1 else 0) 1000
     | JFloat f \<Rightarrow> Inr (float_div_int f 1000)
     | _ \<Rightarrow> Inl TypeError)"

text \<open>\<^verbatim>\<open>repr(x)\<close> and \<^verbatim>\<open>str(x)\<close>; the latter is what an f-string field prints.\<close>

fun py_repr :: "pyrt \<Rightarrow> json \<Rightarrow> ustr" where
  "py_repr rt JNull = u ''None''"
| "py_repr rt (JBool b) = (if b then u ''True'' else u ''False'')"
| "py_repr rt (JInt n) = str_int n"
| "py_repr rt (JFloat f) = repr_float f"
| "py_repr rt (JStr s) = str_repr rt s"
| "py_repr rt (JArr xs) = u ''['' @ join (u '', '') (map (py_repr rt) xs) @ u '']''"
| "py_repr rt (JObj kvs) =
     u ''{'' @ join (u '', '') (map (\<lambda>kv. str_repr rt (fst kv) @ u '': '' @ py_repr rt (snd kv)) kvs)
     @ u ''}''"

definition py_str :: "pyrt \<Rightarrow> json \<Rightarrow> ustr" where
  "py_str rt x = (case x of JStr s \<Rightarrow> s | _ \<Rightarrow> py_repr rt x)"

section \<open>The upstream providers\<close>

text \<open>
  Each \<^verbatim>\<open>requests.get\<close>/\<^verbatim>\<open>requests.post\<close> of the program is answered by its provider.
  The answer is an input of the model: either the call raises (connection error,
  timeout), or a response arrives with a status code and a body; the body is \<open>None\<close>
  when \<^verbatim>\<open>resp.json()\<close> cannot decode it. \<^verbatim>\<open>print\<close> has no effect on the result and is
  left out.
\<close>

datatype http_reply = ConnFail | Reply nat "json option"

text \<open>\<^verbatim>\<open>resp.raise_for_status()\<close> followed by \<^verbatim>\<open>resp.json()\<close>.\<close>

definition fetch_json :: "http_reply \<Rightarrow> exn + json" where
  "fetch_json r = (case r of
       ConnFail \<Rightarrow> Inl RequestException
     | Reply st body \<Rightarrow>
         (if 400 \<le> st \<and> st < 600 then Inl HTTPError
          else (case body of None \<Rightarrow> Inl JSONDecodeError | Some j \<Rightarrow> Inr j)))"

section \<open>\<^verbatim>\<open>tmap_geocode\<close>\<close>

text \<open>\<^verbatim>\<open>poi0.get(k1) or poi0.get(k2) or poi0.get(k3) or poi0.get(k4)\<close>.\<close>

definition or_chain :: "json \<Rightarrow> ustr \<Rightarrow> ustr \<Rightarrow> ustr \<Rightarrow> ustr \<Rightarrow> exn + json" where
  "or_chain poi0 k1 k2 k3 k4 =
     bind_exn (dict_get poi0 k1 JNull) (\<lambda>a. if truthy a then Inr a else
     bind_exn (dict_get poi0 k2 JNull) (\<lambda>b. if truthy b then Inr b else
     bind_exn (dict_get poi0 k3 JNull) (\<lambda>c. if truthy c then Inr c else
     dict_get poi0 k4 JNull)))"

text \<open>The body of the \<^verbatim>\<open>try\<close> block of \<^verbatim>\<open>tmap_geocode\<close>.\<close>

definition geocode_try :: "pyrt \<Rightarrow> http_reply \<Rightarrow> exn + (pyfloat \<times> pyfloat) option" where
  "geocode_try rt reply =
     bind_exn (fetch_json reply) (\<lambda>data.
     bind_exn (dict_get data (u ''searchPoiInfo'') JNull) (\<lambda>spi.
     if \<not> truthy spi then Inr None else
     bind_exn (dict_get spi (u ''pois'') (JObj [])) (\<lambda>ps.
     bind_exn (dict_get ps (u ''poi'') JNull) (\<lambda>pois.
     if \<not> truthy pois then Inr None else
     bind_exn (case pois of JArr xs \<Rightarrow> getitem0 pois | _ \<Rightarrow> Inr pois) (\<lambda>poi0.
     bind_exn (or_chain poi0 (u ''frontLat'') (u ''frontlat'') (u ''noorLat'') (u ''lat'')) (\<lambda>lat.
     bind_exn (or_chain poi0 (u ''frontLon'') (u ''frontlon'') (u ''noorLon'') (u ''lon'')) (\<lambda>lon.
     if lat = JNull \<or> lon = JNull then Inr None else
     bind_exn (py_float rt lat) (\<lambda>a.
     bind_exn (py_float rt lon) (\<lambda>b.
     Inr (Some (a, b)))))))))))"

definition tmap_geocode :: "pyrt \<Rightarrow> ustr \<Rightarrow> ustr \<Rightarrow> http_reply \<Rightarrow> (pyfloat \<times> pyfloat) option" where
  "tmap_geocode rt keyword app_key reply =
     (if keyword = [] \<or> app_key = [] then None
      else (case geocode_try rt reply of Inl e \<Rightarrow> None | Inr r \<Rightarrow> r))"

section \<open>\<^verbatim>\<open>TravelAPIView.get\<close>\<close>

subsection \<open>Inputs and results\<close>

text \<open>
  The three environment variables (\<^verbatim>\<open>os.environ.get(name, "")\<close>: an unset variable
  reads as the empty string), the four query parameters (\<^verbatim>\<open>request.GET.get(name)\<close>:
  \<open>None\<close> when the parameter is absent), and the answers of the providers to the five
  calls the handler can make.
\<close>

record environ =
  TMAP_APP_KEY :: ustr
  KAKAO_JS_KEY :: ustr
  OPENWEATHER_API_KEY :: ustr

record query =
  q_origin :: "ustr option"
  q_departure :: "ustr option"
  q_destination :: "ustr option"
  q_mode :: "ustr option"

record upstream =
  geo_departure :: http_reply
  geo_destination :: http_reply
  weather_reply :: http_reply
  car_reply :: http_reply
  transit_reply :: http_reply

text \<open>The dicts \<^verbatim>\<open>car_info\<close>, \<^verbatim>\<open>transit_info\<close> and the entries of \<^verbatim>\<open>transit_steps\<close>.\<close>

record drive_route =
  time_min :: int
  distance_km :: pyfloat

record transit_itinerary =
  total_time_min :: json
  total_distance_km :: pyfloat
  transfer_count :: json
  path_type :: json

record transit_step =
  ts_order :: int
  ts_mode :: json
  ts_mode_ko :: json
  ts_summary :: ustr

text \<open>The dict \<^verbatim>\<open>response\<close> (the debug bundle returned under \<^verbatim>\<open>"raw"\<close>).\<close>

record raw_bundle =
  r_kakao_js_key :: ustr
  r_departure :: ustr
  r_destination :: ustr
  r_mode :: ustr
  r_weather :: json
  r_car_info :: "drive_route option"
  r_transit_info :: "transit_itinerary option"
  r_car_path :: "json list"
  r_transit_steps :: "transit_step list"
  r_errors :: "ustr list"

definition car_info_json :: "drive_route option \<Rightarrow> json" where
  "car_info_json c = (case c of None \<Rightarrow> JNull
     | Some d \<Rightarrow> JObj [(u ''time_min'', JInt (time_min d)),
                        (u ''distance_km'', JFloat (distance_km d))])"

definition transit_info_json :: "transit_itinerary option \<Rightarrow> json" where
  "transit_info_json t = (case t of None \<Rightarrow> JNull
     | Some i \<Rightarrow> JObj [(u ''total_time_min'', total_time_min i),
                        (u ''total_distance_km'', JFloat (total_distance_km i)),
                        (u ''transfer_count'', transfer_count i),
                        (u ''path_type'', path_type i)])"

definition transit_step_json :: "transit_step \<Rightarrow> json" where
  "transit_step_json s = JObj [(u ''order'', JInt (ts_order s)), (u ''mode'', ts_mode s),
                               (u ''mode_ko'', ts_mode_ko s), (u ''summary'', JStr (ts_summary s))]"

definition raw_json :: "raw_bundle \<Rightarrow> json" where
  "raw_json r = JObj
     [(u ''kakao_js_key'', JStr (r_kakao_js_key r)),
      (u ''departure'', JStr (r_departure r)),
      (u ''destination'', JStr (r_destination r)),
      (u ''mode'', JStr (r_mode r)),
      (u ''weather'', r_weather r),
      (u ''car_info'', car_info_json (r_car_info r)),
      (u ''transit_info'', transit_info_json (r_transit_info r)),
      (u ''car_path'', JArr (r_car_path r)),
      (u ''transit_steps'', JArr (map transit_step_json (r_transit_steps r))),
      (u ''errors'', JArr (map JStr (r_errors r)))]"

text \<open>\<^verbatim>\<open>Response(data, status=...)\<close>.\<close>

record http_response =
  status :: nat
  data :: json

definition HTTP_200_OK :: nat where
  "HTTP_200_OK = 200"

text \<open>The dict every \<^verbatim>\<open>return Response(...)\<close> of the handler builds.\<close>

definition route_response :: "json \<Rightarrow> json \<Rightarrow> ustr list \<Rightarrow> raw_bundle \<Rightarrow> http_response" where
  "route_response duration distance steps r =
     \<lparr>status = HTTP_200_OK,
      data = JObj [(u ''duration'', duration), (u ''distance'', distance),
                   (u ''steps'', JArr (map JStr steps)), (u ''raw'', raw_json r)]\<rparr>"

definition add_error :: "ustr \<Rightarrow> raw_bundle \<Rightarrow> raw_bundle" where
  "add_error msg r = r\<lparr>r_errors := r_errors r @ [msg]\<rparr>"

subsection \<open>The literal texts\<close>

text \<open>
  The Korean string literals of the source, as code points. In order: "origin and
  destination are required"; the three lines shown when \<^verbatim>\<open>TMAP_APP_KEY\<close> is unset; the
  suffix of the geocoding failure note; the weather, driving and transit failure
  notes; "no suitable route was found"; and the pieces of the step and duration texts.
\<close>

definition msg_need_endpoints :: ustr where
  "msg_need_endpoints = [52636, 48156, 51648, 50752] @ u '' '' @ [46020, 52265, 51648, 44032] @ u '' '' @ [54596, 50836, 54633, 45768, 45796] @ u ''.''"

definition msg_no_key :: ustr where
  "msg_no_key = u ''TMAP_APP_KEY'' @ [44032] @ u '' '' @ [49436, 48260] @ u '' '' @ [54872, 44221, 48320, 49688, 50640] @ u '' '' @ [49444, 51221, 46104, 51648] @ u '' '' @ [50506, 50520, 49845, 45768, 45796] @ u ''.''"

definition msg_set_key :: ustr where
  "msg_set_key = u ''settings.py '' @ [46608, 45716] @ u '' .env'' @ [50640, 49436] @ u '' TMAP_APP_KEY'' @ [47484] @ u '' '' @ [49444, 51221, 54644] @ u '' '' @ [51452, 49464, 50836] @ u ''.''"

definition msg_after_key :: ustr where
  "msg_after_key = u ''API '' @ [53412, 44032] @ u '' '' @ [49444, 51221, 46104, 47732] @ u '' '' @ [49892, 51228] @ u '' Tmap '' @ [44221, 47196, 44032] @ u '' '' @ [54364, 49884, 46121, 45768, 45796] @ u ''.''"

definition msg_geocode_failed :: "ustr \<Rightarrow> ustr" where
  "msg_geocode_failed place = [39] @ place @ [39] @ u '' '' @ [51340, 54364] @ u '' '' @ [48320, 54872] @ u '' '' @ [49892, 54056]"

definition msg_weather_failed :: ustr where
  "msg_weather_failed = [45216, 50472] @ u '' '' @ [51221, 48372] @ u '' '' @ [51312, 54924] @ u '' '' @ [49892, 54056]"

definition msg_car_failed :: ustr where
  "msg_car_failed = [51088, 46041, 52264] @ u '' '' @ [44221, 47196] @ u '' '' @ [51312, 54924] @ u '' '' @ [49892, 54056]"

definition msg_transit_failed :: ustr where
  "msg_transit_failed = [45824, 51473, 44368, 53685] @ u '' '' @ [44221, 47196] @ u '' '' @ [51312, 54924] @ u '' '' @ [49892, 54056]"

definition msg_no_route :: ustr where
  "msg_no_route = [51201, 51208, 54620] @ u '' '' @ [44221, 47196, 47484] @ u '' '' @ [52286, 51648] @ u '' '' @ [47803, 54664, 49845, 45768, 45796] @ u ''.''"

text \<open>The f-strings for "about \<open>m\<close> minutes" and \<^verbatim>\<open>f"{d} km"\<close>.\<close>

definition about_minutes :: "ustr \<Rightarrow> ustr" where
  "about_minutes m = [50557] @ u '' '' @ m @ [48516]"

definition km_text :: "ustr \<Rightarrow> ustr" where
  "km_text d = d @ u '' km''"

text \<open>
  The three step lines of the \<^verbatim>\<open>car\<close> branch ("depart from ...", "follow the Tmap
  driving route (about ... km)", "arrive at ...") and of the \<^verbatim>\<open>walk\<close> branch.
\<close>

definition car_steps :: "ustr \<Rightarrow> ustr \<Rightarrow> ustr \<Rightarrow> ustr list" where
  "car_steps departure km destination =
     [departure @ [50640, 49436] @ u '' '' @ [52636, 48156],
      u ''Tmap '' @ [51088, 46041, 52264] @ u '' '' @ [44221, 47196, 47484] @ u '' '' @ [46384, 46972] @ u '' '' @ [51060, 46041] @ u '' ('' @ [50557] @ u '' '' @ km @ u ''km)'',
      destination @ u '' '' @ [46020, 52265]]"

definition walk_steps :: "ustr \<Rightarrow> ustr \<Rightarrow> ustr \<Rightarrow> ustr list" where
  "walk_steps departure km destination =
     [departure @ [50640, 49436] @ u '' '' @ [46020, 48372] @ u '' '' @ [52636, 48156],
      [50557] @ u '' '' @ km @ u ''km '' @ [46020, 48372] @ u '' '' @ [51060, 46041],
      destination @ u '' '' @ [46020, 52265]]"

text \<open>The table \<^verbatim>\<open>mode_ko_map\<close>.\<close>

definition mode_ko_map :: "(ustr \<times> ustr) list" where
  "mode_ko_map =
     [(u ''WALK'', [46020, 48372]),
      (u ''BUS'', [48260, 49828]),
      (u ''SUBWAY'', [51648, 54616, 52384]),
      (u ''EXPRESSBUS'', [44256, 49549, 48260, 49828]),
      (u ''TRAIN'', [44592, 52264]),
      (u ''FERRY'', [54644, 50868])]"

subsection \<open>Weather (best effort)\<close>

text \<open>The body of the \<^verbatim>\<open>try\<close> block: the dict \<^verbatim>\<open>weather\<close> or the exception raised.\<close>

definition weather_try :: "http_reply \<Rightarrow> exn + json" where
  "weather_try reply =
     bind_exn (fetch_json reply) (\<lambda>w_data.
     bind_exn (dict_get w_data (u ''name'') JNull) (\<lambda>name.
     bind_exn (getitem_key w_data (u ''main'')) (\<lambda>main.
     bind_exn (getitem_key main (u ''temp'')) (\<lambda>temp.
     bind_exn (getitem_key w_data (u ''weather'')) (\<lambda>ws.
     bind_exn (getitem0 ws) (\<lambda>w0.
     bind_exn (getitem_key w0 (u ''description'')) (\<lambda>desc.
     Inr (JObj [(u ''name'', name), (u ''temp'', temp), (u ''desc'', desc)]))))))))"

definition weather_step :: "ustr \<Rightarrow> http_reply \<Rightarrow> raw_bundle \<Rightarrow> raw_bundle" where
  "weather_step openweather_key reply r =
     (if openweather_key = [] then r\<lparr>r_weather := JNull\<rparr>
      else (case weather_try reply of
              Inl e \<Rightarrow> (add_error msg_weather_failed r)\<lparr>r_weather := JNull\<rparr>
            | Inr w \<Rightarrow> r\<lparr>r_weather := w\<rparr>))"

subsection \<open>Driving route\<close>

text \<open>The dict \<^verbatim>\<open>car_info\<close> built from \<^verbatim>\<open>features[0]\<close> when \<^verbatim>\<open>features\<close> is truthy.\<close>

definition car_info_of :: "pyrt \<Rightarrow> json \<Rightarrow> exn + drive_route" where
  "car_info_of rt features =
     bind_exn (getitem0 features) (\<lambda>f0.
     bind_exn (dict_get f0 (u ''properties'') (JObj [])) (\<lambda>props0.
     bind_exn (dict_get props0 (u ''totalTime'') (JInt 0)) (\<lambda>tt.
     bind_exn (py_int rt tt) (\<lambda>total_time.
     bind_exn (dict_get props0 (u ''totalDistance'') (JInt 0)) (\<lambda>td.
     bind_exn (py_int rt td) (\<lambda>total_distance.
     bind_exn (int_truediv total_distance 1000) (\<lambda>km.
     Inr \<lparr>time_min = total_time div 60, distance_km = round1 km\<rparr>)))))))"

text \<open>
  The two loops that fill \<^verbatim>\<open>car_path\<close>. The list is extended in place, so what was
  appended before an exception stays; the result is the list and the exception, if any.
\<close>

fun path_points :: "json list \<Rightarrow> json list \<Rightarrow> json list \<times> exn option" where
  "path_points [] acc = (acc, None)"
| "path_points (c # cs) acc =
     (case unpack2 c of
        Inl e \<Rightarrow> (acc, Some e)
      | Inr p \<Rightarrow> path_points cs (acc @ [JObj [(u ''lat'', snd p), (u ''lng'', fst p)]]))"

fun car_path_loop :: "json list \<Rightarrow> json list \<Rightarrow> json list \<times> exn option" where
  "car_path_loop [] acc = (acc, None)"
| "car_path_loop (f # fs) acc =
     (case dict_get f (u ''geometry'') (JObj []) of
        Inl e \<Rightarrow> (acc, Some e)
      | Inr geom \<Rightarrow>
          (case dict_get geom (u ''type'') JNull of
             Inl e \<Rightarrow> (acc, Some e)
           | Inr ty \<Rightarrow>
               if ty = JStr (u ''LineString'') then
                 (case bind_exn (dict_get geom (u ''coordinates'') (JArr [])) iterate of
                    Inl e \<Rightarrow> (acc, Some e)
                  | Inr cs \<Rightarrow>
                      (case path_points cs acc of
                         (acc', Some e) \<Rightarrow> (acc', Some e)
                       | (acc', None) \<Rightarrow> car_path_loop fs acc'))
               else car_path_loop fs acc))"

text \<open>
  The \<^verbatim>\<open>try\<close> block of the driving route: the values of \<^verbatim>\<open>car_info\<close> and \<^verbatim>\<open>car_path\<close>
  when the block is left, and the exception that ended it, if any.
\<close>

definition car_try :: "pyrt \<Rightarrow> http_reply \<Rightarrow> drive_route option \<times> json list \<times> exn option" where
  "car_try rt reply =
     (case bind_exn (fetch_json reply) (\<lambda>data. dict_get data (u ''features'') (JArr [])) of
        Inl e \<Rightarrow> (None, [], Some e)
      | Inr features \<Rightarrow>
          (case (if truthy features then map_sum id Some (car_info_of rt features) else Inr None) of
             Inl e \<Rightarrow> (None, [], Some e)
           | Inr car_info \<Rightarrow>
               (case iterate features of
                  Inl e \<Rightarrow> (car_info, [], Some e)
                | Inr fs \<Rightarrow> (case car_path_loop fs [] of (path, ex) \<Rightarrow> (car_info, path, ex)))))"

definition car_step :: "pyrt \<Rightarrow> http_reply \<Rightarrow> raw_bundle \<Rightarrow> raw_bundle" where
  "car_step rt reply r =
     (case car_try rt reply of (car_info, car_path, ex) \<Rightarrow>
        (case ex of None \<Rightarrow> r | Some e \<Rightarrow> add_error msg_car_failed r)
          \<lparr>r_car_info := car_info, r_car_path := car_path\<rparr>)"

subsection \<open>Transit route\<close>

text \<open>\<^verbatim>\<open>mode_ko_map.get(mode_leg, mode_leg)\<close>: a list or a dict is not hashable.\<close>

definition mode_ko_of :: "json \<Rightarrow> exn + json" where
  "mode_ko_of mode_leg = (case mode_leg of
       JStr s \<Rightarrow> Inr (case map_of mode_ko_map s of Some l \<Rightarrow> JStr l | None \<Rightarrow> mode_leg)
     | JArr xs \<Rightarrow> Inl TypeError
     | JObj kvs \<Rightarrow> Inl TypeError
     | _ \<Rightarrow> Inr mode_leg)"

text \<open>\<^verbatim>\<open>(leg.get(k) or {}).get("name") or ""\<close>.\<close>

definition place_name :: "json \<Rightarrow> ustr \<Rightarrow> exn + json" where
  "place_name leg k =
     bind_exn (dict_get leg k JNull) (\<lambda>p.
     bind_exn (dict_get (py_or p (JObj [])) (u ''name'') JNull) (\<lambda>n.
     Inr (py_or n (JStr []))))"

definition summary_text :: "pyrt \<Rightarrow> json \<Rightarrow> json \<Rightarrow> json \<Rightarrow> int \<Rightarrow> ustr" where
  "summary_text rt start_name end_name mode_ko tmin =
     py_str rt start_name @ u '' '' @ [8594] @ u '' '' @ py_str rt end_name @ u '' ('' @ py_str rt mode_ko
     @ u '') '' @ about_minutes (str_int tmin)"

text \<open>One turn of the loop over \<^verbatim>\<open>enumerate(legs, start=1)\<close>.\<close>

definition leg_step :: "pyrt \<Rightarrow> int \<Rightarrow> json \<Rightarrow> exn + transit_step" where
  "leg_step rt idx leg =
     bind_exn (dict_get leg (u ''mode'') JNull) (\<lambda>mode_leg.
     bind_exn (mode_ko_of mode_leg) (\<lambda>mode_ko.
     bind_exn (dict_get leg (u ''sectionTime'') (JInt 0)) (\<lambda>st.
     bind_exn (py_int rt st) (\<lambda>sec.
     bind_exn (place_name leg (u ''start'')) (\<lambda>start_name.
     bind_exn (place_name leg (u ''end'')) (\<lambda>end_name.
     Inr \<lparr>ts_order = idx, ts_mode = mode_leg, ts_mode_ko = mode_ko,
          ts_summary = summary_text rt start_name end_name mode_ko (sec div 60)\<rparr>))))))"

fun legs_loop :: "pyrt \<Rightarrow> int \<Rightarrow> json list \<Rightarrow> transit_step list \<Rightarrow> transit_step list \<times> exn option"
  where
  "legs_loop rt idx [] acc = (acc, None)"
| "legs_loop rt idx (leg # legs) acc =
     (case leg_step rt idx leg of
        Inl e \<Rightarrow> (acc, Some e)
      | Inr s \<Rightarrow> legs_loop rt (idx + 1) legs (acc @ [s]))"

text \<open>The dict \<^verbatim>\<open>transit_info\<close> built from \<^verbatim>\<open>it0\<close>.\<close>

definition transit_info_of :: "json \<Rightarrow> exn + transit_itinerary" where
  "transit_info_of it0 =
     bind_exn (dict_get it0 (u ''totalTime'') (JInt 0)) (\<lambda>total_time.
     bind_exn (dict_get it0 (u ''totalDistance'') (JInt 0)) (\<lambda>total_distance.
     bind_exn (dict_get it0 (u ''transferCount'') (JInt 0)) (\<lambda>tc.
     bind_exn (py_floordiv60 total_time) (\<lambda>tmin.
     bind_exn (py_truediv1000 total_distance) (\<lambda>km.
     bind_exn (dict_get it0 (u ''pathType'') JNull) (\<lambda>pt.
     Inr \<lparr>total_time_min = tmin, total_distance_km = round1 km,
          transfer_count = tc, path_type = pt\<rparr>))))))"

text \<open>
  The \<^verbatim>\<open>try\<close> block of the transit route: the values of \<^verbatim>\<open>transit_info\<close> and
  \<^verbatim>\<open>transit_steps\<close> when the block is left, and the exception that ended it, if any.
\<close>

definition transit_try ::
  "pyrt \<Rightarrow> http_reply \<Rightarrow> transit_itinerary option \<times> transit_step list \<times> exn option" where
  "transit_try rt reply =
     (case bind_exn (fetch_json reply) (\<lambda>data.
           bind_exn (dict_get data (u ''metaData'') (JObj [])) (\<lambda>md.
           bind_exn (dict_get md (u ''plan'') (JObj [])) (\<lambda>plan.
           dict_get plan (u ''itineraries'') (JArr [])))) of
        Inl e \<Rightarrow> (None, [], Some e)
      | Inr itineraries \<Rightarrow>
          if truthy itineraries then
            (case bind_exn (getitem0 itineraries) (\<lambda>it0.
                  bind_exn (transit_info_of it0) (\<lambda>ti. Inr (it0, ti))) of
               Inl e \<Rightarrow> (None, [], Some e)
             | Inr p \<Rightarrow>
                 (case bind_exn (dict_get (fst p) (u ''legs'') (JArr [])) iterate of
                    Inl e \<Rightarrow> (Some (snd p), [], Some e)
                  | Inr legs \<Rightarrow>
                      (case legs_loop rt 1 legs [] of (steps, ex) \<Rightarrow> (Some (snd p), steps, ex))))
          else (None, [], None))"

definition transit_step_of :: "pyrt \<Rightarrow> http_reply \<Rightarrow> raw_bundle \<Rightarrow> raw_bundle" where
  "transit_step_of rt reply r =
     (case transit_try rt reply of (transit_info, transit_steps, ex) \<Rightarrow>
        (case ex of None \<Rightarrow> r | Some e \<Rightarrow> add_error msg_transit_failed r)
          \<lparr>r_transit_info := transit_info, r_transit_steps := transit_steps\<rparr>)"

subsection \<open>Shaping the answer for the selected mode\<close>

text \<open>
  \<^verbatim>\<open>int(car_info["distance_km"] / 4 * 60)\<close>. This statement is outside every \<^verbatim>\<open>try\<close>
  block, so an exception here leaves the handler.
\<close>

definition walk_minutes :: "pyfloat \<Rightarrow> exn + int" where
  "walk_minutes km = float_to_int (float_mul_int (float_div_int km 4) 60)"

text \<open>
  The \<^verbatim>\<open>if\<close>/\<^verbatim>\<open>elif\<close> chain on \<^verbatim>\<open>mode\<close>: \<open>Some (duration, distance, steps)\<close> when a branch
  is taken, \<open>None\<close> when \<^verbatim>\<open>duration\<close> stays \<^verbatim>\<open>None\<close>. A condition
  \<^verbatim>\<open>mode == "car" and car_info\<close> holds when the mode matches and the dict is not \<^verbatim>\<open>None\<close>
  (a dict with two entries is truthy).
\<close>

definition shape ::
  "pyrt \<Rightarrow> ustr \<Rightarrow> ustr \<Rightarrow> ustr \<Rightarrow> drive_route option \<Rightarrow> transit_itinerary option \<Rightarrow>
   transit_step list \<Rightarrow> exn + (ustr \<times> ustr \<times> ustr list) option" where
  "shape rt mode departure destination car_info transit_info transit_steps =
     (case (if mode = u ''car'' then car_info else None) of
        Some c \<Rightarrow>
          Inr (Some (about_minutes (str_int (time_min c)),
                     km_text (repr_float (distance_km c)),
                     car_steps departure (repr_float (distance_km c)) destination))
      | None \<Rightarrow>
     (case (if mode = u ''transit'' then transit_info else None) of
        Some t \<Rightarrow>
          Inr (Some (about_minutes (py_str rt (total_time_min t)),
                     km_text (repr_float (total_distance_km t)),
                     map ts_summary transit_steps))
      | None \<Rightarrow>
     (case (if mode = u ''walk'' then car_info else None) of
        Some c \<Rightarrow>
          bind_exn (walk_minutes (distance_km c)) (\<lambda>wm.
          Inr (Some (about_minutes (str_int wm),
                     km_text (repr_float (distance_km c)),
                     walk_steps departure (repr_float (distance_km c)) destination)))
      | None \<Rightarrow> Inr None)))"

subsection \<open>The handler\<close>

text \<open>\<^verbatim>\<open>a or b\<close> for an optional query parameter \<open>a\<close> and a string \<open>b\<close>.\<close>

definition param_or :: "ustr option \<Rightarrow> ustr \<Rightarrow> ustr" where
  "param_or a b = (case a of None \<Rightarrow> b | Some s \<Rightarrow> if s = [] then b else s)"

definition departure_of :: "query \<Rightarrow> ustr" where
  "departure_of q = strip (param_or (q_origin q) (param_or (q_departure q) []))"

definition destination_of :: "query \<Rightarrow> ustr" where
  "destination_of q = strip (param_or (q_destination q) [])"

definition mode_of :: "query \<Rightarrow> ustr" where
  "mode_of q = strip (param_or (q_mode q) (u ''car''))"

definition initial_bundle :: "environ \<Rightarrow> query \<Rightarrow> raw_bundle" where
  "initial_bundle env q =
     \<lparr>r_kakao_js_key = KAKAO_JS_KEY env, r_departure = departure_of q,
      r_destination = destination_of q, r_mode = mode_of q, r_weather = JNull,
      r_car_info = None, r_transit_info = None, r_car_path = [], r_transit_steps = [],
      r_errors = []\<rparr>"

text \<open>The two geocoding calls and the notes for the ones that gave no coordinate.\<close>

definition geocode_notes ::
  "ustr \<Rightarrow> ustr \<Rightarrow> (pyfloat \<times> pyfloat) option \<Rightarrow> (pyfloat \<times> pyfloat) option \<Rightarrow>
   raw_bundle \<Rightarrow> raw_bundle" where
  "geocode_notes departure destination dep_coord dest_coord r =
     (let r1 = (if dep_coord \<noteq> None then r else add_error (msg_geocode_failed departure) r)
      in if dest_coord \<noteq> None then r1 else add_error (msg_geocode_failed destination) r1)"

text \<open>
  \<^verbatim>\<open>TravelAPIView.get\<close>: the response returned, or the exception that leaves the
  method.
\<close>

definition get :: "pyrt \<Rightarrow> environ \<Rightarrow> upstream \<Rightarrow> query \<Rightarrow> exn + http_response" where
  "get rt env up q =
     (let tmap_app_key = TMAP_APP_KEY env;
          departure = departure_of q;
          destination = destination_of q;
          mode = mode_of q;
          response = initial_bundle env q
      in if \<not> (departure \<noteq> [] \<and> destination \<noteq> []) then
           Inr (route_response JNull JNull [] (add_error msg_need_endpoints response))
         else if tmap_app_key = [] then
           Inr (route_response JNull JNull [msg_no_key, msg_set_key, msg_after_key]
                  (add_error msg_no_key response))
         else
           let dep_coord = tmap_geocode rt departure tmap_app_key (geo_departure up);
               dest_coord = tmap_geocode rt destination tmap_app_key (geo_destination up);
               response = geocode_notes departure destination dep_coord dest_coord response
           in if dep_coord = None \<or> dest_coord = None then
                Inr (route_response JNull JNull [] response)
              else
                let response = weather_step (OPENWEATHER_API_KEY env) (weather_reply up) response;
                    response = car_step rt (car_reply up) response;
                    response = transit_step_of rt (transit_reply up) response
                in bind_exn (shape rt mode departure destination (r_car_info response)
                               (r_transit_info response) (r_transit_steps response))
                     (\<lambda>shaped. case shaped of
                        None \<Rightarrow>
                          Inr (route_response JNull JNull [] (add_error msg_no_route response))
                      | Some (duration, distance, steps) \<Rightarrow>
                          Inr (route_response (JStr duration) (JStr distance) steps response)))"

section \<open>Reading a response\<close>

text \<open>The keys of a dict and the value stored under a key.\<close>

definition keys :: "json \<Rightarrow> ustr list" where
  "keys x = (case x of JObj kvs \<Rightarrow> map fst kvs | _ \<Rightarrow> [])"

definition field :: "json \<Rightarrow> ustr \<Rightarrow> json option" where
  "field x k = (case x of JObj kvs \<Rightarrow> map_of kvs k | _ \<Rightarrow> None)"

text \<open>The error notes of the debug bundle of a response body.\<close>

definition error_notes :: "json \<Rightarrow> json option" where
  "error_notes body = (case field body (u ''raw'') of None \<Rightarrow> None | Some raw \<Rightarrow> field raw (u ''errors''))"

text \<open>The debug bundle after the weather, driving and transit steps.\<close>

definition gathered :: "pyrt \<Rightarrow> environ \<Rightarrow> upstream \<Rightarrow> query \<Rightarrow> raw_bundle" where
  "gathered rt env up q =
     transit_step_of rt (transit_reply up)
       (car_step rt (car_reply up)
          (weather_step (OPENWEATHER_API_KEY env) (weather_reply up) (initial_bundle env q)))"

text \<open>The request passes validation, the credential check and both geocoding calls.\<close>

definition reaches_routing :: "pyrt \<Rightarrow> environ \<Rightarrow> upstream \<Rightarrow> query \<Rightarrow> bool" where
  "reaches_routing rt env up q \<longleftrightarrow>
     departure_of q \<noteq> [] \<and> destination_of q \<noteq> [] \<and> TMAP_APP_KEY env \<noteq> []
     \<and> tmap_geocode rt (departure_of q) (TMAP_APP_KEY env) (geo_departure up) \<noteq> None
     \<and> tmap_geocode rt (destination_of q) (TMAP_APP_KEY env) (geo_destination up) \<noteq> None"

text \<open>
  A feature (given by its entries) whose \<^verbatim>\<open>properties\<close> carry neither \<^verbatim>\<open>totalTime\<close> nor
  \<^verbatim>\<open>totalDistance\<close>, or that has no \<^verbatim>\<open>properties\<close> at all.
\<close>

definition no_totals :: "(ustr \<times> json) list \<Rightarrow> bool" where
  "no_totals feature = (case map_of feature (u ''properties'') of
       None \<Rightarrow> True
     | Some (JObj props) \<Rightarrow>
         map_of props (u ''totalTime'') = None \<and> map_of props (u ''totalDistance'') = None
     | Some _ \<Rightarrow> False)"

text \<open>
  Rounding metres to kilometres with one decimal, as the specification words it:
  \<open>k\<close> tenths of a kilometre are \<open>d\<close> metres rounded to one decimal place when \<open>k / 10\<close>
  is at most \<open>0.05\<close> away from \<open>d / 1000\<close> (at a tie both neighbours qualify), and the
  float that stands for \<open>k\<close> tenths is the binary64 value nearest to \<open>k / 10\<close>.
\<close>

definition nearest_tenths :: "int \<Rightarrow> int \<Rightarrow> bool" where
  "nearest_tenths d k \<longleftrightarrow> \<bar>100 * k - d\<bar> \<le> 50"

definition float_of_tenths :: "int \<Rightarrow> pyfloat" where
  "float_of_tenths k = fl (of_int k / 10)"

text \<open>
  The walking time as the specification words it, for a distance of \<open>k\<close> tenths of a
  kilometre: \<open>\<lfloor>distanceKm \<div> 4 \<times> 60\<rfloor>\<close> minutes, in exact arithmetic.
\<close>

definition walk_estimate :: "int \<Rightarrow> int" where
  "walk_estimate k = \<lfloor>(of_int k / 10 :: rat) / 4 * 60\<rfloor>"







text \<open>
  The field fallback of geocoding. As the specification words it: among the keys, in
  order, the value of the first one that is present. As the \<^verbatim>\<open>or\<close> chain computes it:
  the value of the first key whose value is truthy (present, and not null, zero or
  empty); the last key is read as it is.
\<close>

fun first_present :: "(ustr \<times> json) list \<Rightarrow> ustr list \<Rightarrow> json" where
  "first_present poi [] = JNull"
| "first_present poi (k # ks) =
     (case map_of poi k of Some v \<Rightarrow> v | None \<Rightarrow> first_present poi ks)"

fun first_truthy :: "(ustr \<times> json) list \<Rightarrow> ustr list \<Rightarrow> json" where
  "first_truthy poi [] = JNull"
| "first_truthy poi [k] = (case map_of poi k of Some v \<Rightarrow> v | None \<Rightarrow> JNull)"
| "first_truthy poi (k # k' # ks) =
     (case map_of poi k of
        Some v \<Rightarrow> if truthy v then v else first_truthy poi (k' # ks)
      | None \<Rightarrow> first_truthy poi (k' # ks))"

definition lat_keys :: "ustr list" where
  "lat_keys = [u ''frontLat'', u ''frontlat'', u ''noorLat'', u ''lat'']"

definition lon_keys :: "ustr list" where
  "lon_keys = [u ''frontLon'', u ''frontlon'', u ''noorLon'', u ''lon'']"

text \<open>The pair \<^verbatim>\<open>float(lat), float(lon)\<close> of two resolved fields, if there is one.\<close>

definition coordinate :: "pyrt \<Rightarrow> json \<Rightarrow> json \<Rightarrow> (pyfloat \<times> pyfloat) option" where
  "coordinate rt lat lon =
     (if lat = JNull \<or> lon = JNull then None
      else (case py_float rt lat of
              Inl e \<Rightarrow> None
            | Inr a \<Rightarrow> (case py_float rt lon of Inl e \<Rightarrow> None | Inr b \<Rightarrow> Some (a, b))))"

text \<open>What the caller sees of a run of the handler: a field of the body, the status.\<close>

definition answer_field :: "exn + http_response \<Rightarrow> ustr \<Rightarrow> json option" where
  "answer_field res k = (case res of Inl e \<Rightarrow> None | Inr resp \<Rightarrow> field (data resp) k)"

definition answer_notes :: "exn + http_response \<Rightarrow> json option" where
  "answer_notes res = (case res of Inl e \<Rightarrow> None | Inr resp \<Rightarrow> error_notes (data resp))"

section \<open>Sample inputs\<close>

text \<open>
  A runtime in which no string parses as a number, a configured environment, a
  request from A to B, and provider answers: a point of interest that carries only
  \<^verbatim>\<open>noorLat\<close>/\<^verbatim>\<open>noorLon\<close>, and a driving route with given totals.
\<close>

definition sample_rt :: pyrt where
  "sample_rt = \<lparr>str_repr = (\<lambda>s. [39] @ s @ [39]), str_to_int = (\<lambda>s. None),
                str_to_float = (\<lambda>s. None)\<rparr>"

definition sample_env :: environ where
  "sample_env = \<lparr>TMAP_APP_KEY = u ''key'', KAKAO_JS_KEY = u ''js'', OPENWEATHER_API_KEY = u ''ow''\<rparr>"

definition sample_query :: "string \<Rightarrow> query" where
  "sample_query m = \<lparr>q_origin = Some (u ''A''), q_departure = None,
                      q_destination = Some (u ''B''), q_mode = Some (u m)\<rparr>"

definition noor_poi :: json where
  "noor_poi = JObj [(u ''name'', JStr (u ''A'')),
                    (u ''noorLat'', JFloat (Fin (75 / 2))), (u ''noorLon'', JFloat (Fin 127))]"

definition poi_payload :: "json \<Rightarrow> json" where
  "poi_payload poi = JObj [(u ''searchPoiInfo'', JObj [(u ''pois'', JObj [(u ''poi'', JArr [poi])])])]"

definition route_payload :: "int \<Rightarrow> int \<Rightarrow> json" where
  "route_payload t d = JObj [(u ''features'',
     JArr [JObj [(u ''properties'', JObj [(u ''totalTime'', JInt t), (u ''totalDistance'', JInt d)])]])]"

definition sample_upstream :: "http_reply \<Rightarrow> upstream" where
  "sample_upstream car =
     \<lparr>geo_departure = Reply 200 (Some (poi_payload noor_poi)),
      geo_destination = Reply 200 (Some (poi_payload noor_poi)),
      weather_reply = ConnFail, car_reply = car, transit_reply = ConnFail\<rparr>"

section \<open>Facts about binary64 rounding\<close>

lemma pow2_powi: "pow2 e = 2 powi e"
  by (simp add: pow2_def power_int_def field_simps)

lemma pow2_pos: "0 < pow2 e"
  by (simp add: pow2_powi)

lemma pow2_add: "pow2 (a + b) = pow2 a * pow2 b"
  by (simp add: pow2_powi power_int_add)

lemma pow2_diff: "pow2 (a - b) = pow2 a / pow2 b"
  by (simp add: pow2_powi power_int_diff)

lemma pow2_mono: "a \<le> b \<Longrightarrow> pow2 a \<le> pow2 b"
  by (simp add: pow2_powi power_int_increasing)

lemma pow2_strict_mono: "a < b \<Longrightarrow> pow2 a < pow2 b"
  by (simp add: pow2_powi power_int_strict_increasing)

lemma pow2_less_cancel: "pow2 a < pow2 b \<Longrightarrow> a < b"
  using pow2_mono [of b a] by (cases "a < b") auto

lemma pow2_nat: "0 \<le> e \<Longrightarrow> pow2 e = of_int (2 ^ nat e)"
  by (simp add: pow2_def)

lemma ilog2_bounds:
  assumes "0 < q"
  shows "pow2 (ilog2 q) \<le> q \<and> q < pow2 (ilog2 q + 1)"
proof -
  obtain a b where ab: "quotient_of q = (a, b)"
    by (cases "quotient_of q")
  then have b: "0 < b" and q: "q = of_int a / of_int b"
    by (auto dest: quotient_of_denom_pos quotient_of_div)
  with assms have a: "0 < a"
    by (simp add: zero_less_divide_iff)
  define la lb where "la = bitlen a" and "lb = bitlen b"
  have la1: "1 \<le> la" and lb1: "1 \<le> lb"
    using a b by (simp_all add: la_def lb_def bitlen_alt_def)
  have "2 ^ nat (la - 1) \<le> a" "a < 2 ^ nat la" "2 ^ nat (lb - 1) \<le> b" "b < 2 ^ nat lb"
    using bitlen_bounds [OF a] bitlen_bounds [OF b] by (simp_all add: la_def lb_def)
  then have A: "pow2 (la - 1) \<le> of_int a" "of_int a < pow2 la"
    and B: "pow2 (lb - 1) \<le> of_int b" "of_int b < pow2 lb"
    using la1 lb1 by (simp_all add: pow2_nat del: of_int_power)
  have bp: "(0::rat) < of_int b" using b by simp
  have "pow2 (la - lb - 1) = pow2 (la - 1) / pow2 lb"
    by (simp add: pow2_diff [symmetric] algebra_simps)
  also have "\<dots> \<le> of_int a / pow2 lb"
    using A(1) pow2_pos [of lb] by (simp add: divide_right_mono)
  also have "\<dots> < of_int a / of_int b"
    using B(2) bp a by (simp add: divide_strict_left_mono pow2_pos)
  finally have lower: "pow2 (la - lb - 1) < q" by (simp add: q)
  have "q < pow2 la / of_int b"
    using A(2) bp by (simp add: q divide_strict_right_mono)
  also have "\<dots> \<le> pow2 la / pow2 (lb - 1)"
    using B(1) pow2_pos [of "lb - 1"] pow2_pos [of la] by (simp add: divide_left_mono)
  also have "\<dots> = pow2 (la - lb + 1)"
    by (simp add: pow2_diff [symmetric] algebra_simps)
  finally have upper: "q < pow2 (la - lb + 1)" .
  show ?thesis
    using lower upper
    by (simp add: ilog2_def ab Let_def la_def [symmetric] lb_def [symmetric] not_le)
qed

lemma ilog2_unique:
  assumes "pow2 e \<le> q" "q < pow2 (e + 1)"
  shows "ilog2 q = e"
proof -
  have q: "0 < q" using assms(1) pow2_pos [of e] by simp
  note b = ilog2_bounds [OF q]
  have "pow2 (ilog2 q) < pow2 (e + 1)" using b assms by simp
  then have "ilog2 q < e + 1" by (rule pow2_less_cancel)
  moreover have "pow2 e < pow2 (ilog2 q + 1)" using b assms by simp
  then have "e < ilog2 q + 1" by (rule pow2_less_cancel)
  ultimately show ?thesis by simp
qed

lemma rne_cases:
  "(rne y = \<lfloor>y\<rfloor> \<and> y - of_int \<lfloor>y\<rfloor> \<le> 1 / 2) \<or> (rne y = \<lfloor>y\<rfloor> + 1 \<and> 1 / 2 \<le> y - of_int \<lfloor>y\<rfloor>)"
  by (simp add: rne_def Let_def)

lemma rne_bounds: "\<bar>of_int (rne y) - y\<bar> \<le> 1 / 2"
proof -
  have f: "of_int \<lfloor>y\<rfloor> \<le> y" "y < of_int \<lfloor>y\<rfloor> + 1" by linarith+
  from rne_cases [of y] show ?thesis
  proof
    assume "rne y = \<lfloor>y\<rfloor> \<and> y - of_int \<lfloor>y\<rfloor> \<le> 1 / 2"
    with f show ?thesis by simp
  next
    assume "rne y = \<lfloor>y\<rfloor> + 1 \<and> 1 / 2 \<le> y - of_int \<lfloor>y\<rfloor>"
    with f show ?thesis by simp
  qed
qed

lemma rne_eqI:
  assumes "\<bar>y - of_int m\<bar> < 1 / 2"
  shows "rne y = m"
proof -
  have "\<bar>(of_int (rne y) :: rat) - of_int m\<bar> < 1"
    using rne_bounds [of y] assms by linarith
  then have "\<bar>rne y - m\<bar> < 1"
    by (metis of_int_diff of_int_abs of_int_less_1_iff)
  then show ?thesis by simp
qed

lemma rne_of_int: "rne (of_int m) = m"
  by (rule rne_eqI) simp


lemma pow2_52: "pow2 52 = 2 ^ 52"
  by (simp add: pow2_def)

lemma pow2_1024: "pow2 1024 = 2 * pow2 1023"
  using pow2_add [of 1023 1] by (simp add: pow2_def)

lemma ulp_eq: "pow2 (e - 52) = pow2 e / 2 ^ 52"
  by (simp add: pow2_diff pow2_52)

lemma fl_mag_eqI:
  assumes "pow2 e \<le> q" "q < pow2 (e + 1)" "- 1022 \<le> e"
    and "\<bar>q / pow2 (e - 52) - of_int m\<bar> < 1 / 2"
    and "of_int m * pow2 (e - 52) < pow2 1024"
  shows "fl_mag q = Some (of_int m * pow2 (e - 52))"
proof -
  have "ilog2 q = e" by (rule ilog2_unique) fact+
  moreover have "rne (q / pow2 (e - 52)) = m" by (rule rne_eqI) fact
  ultimately show ?thesis
    using assms(3,5) by (simp add: fl_mag_def Let_def max_def not_le)
qed

lemma fl_eqI:
  assumes "pow2 e \<le> q" "q < pow2 (e + 1)" "- 1022 \<le> e"
    and "\<bar>q / pow2 (e - 52) - of_int m\<bar> < 1 / 2"
    and "of_int m * pow2 (e - 52) < pow2 1024"
  shows "fl q = Fin (of_int m * pow2 (e - 52))"
proof -
  have "0 < q" using assms(1) pow2_pos [of e] by simp
  then show ?thesis by (simp add: fl_def fl_mag_eqI [OF assms])
qed

lemma fl_mag_err:
  assumes "pow2 (- 1022) \<le> q" "q < pow2 1023"
  shows "\<exists>r. fl_mag q = Some r \<and> \<bar>r - q\<bar> \<le> q / 2 ^ 53 \<and> 0 < r"
proof -
  have q: "0 < q" using assms(1) pow2_pos [of "- 1022"] by simp
  define e where "e = ilog2 q"
  have b: "pow2 e \<le> q" "q < pow2 (e + 1)"
    using ilog2_bounds [OF q] by (simp_all add: e_def)
  have "pow2 (- 1022) < pow2 (e + 1)" using assms(1) b(2) by simp
  then have e_lo: "- 1022 \<le> e" using pow2_less_cancel by fastforce
  define ulp where "ulp = pow2 (e - 52)"
  have ulp: "0 < ulp" by (simp add: ulp_def pow2_pos)
  define r where "r = of_int (rne (q / ulp)) * ulp"
  have "r - q = (of_int (rne (q / ulp)) - q / ulp) * ulp"
    using ulp by (simp add: r_def algebra_simps)
  then have "\<bar>r - q\<bar> = \<bar>of_int (rne (q / ulp)) - q / ulp\<bar> * ulp"
    using ulp by (simp add: abs_mult)
  also have "\<dots> \<le> (1 / 2) * ulp"
    using rne_bounds [of "q / ulp"] ulp by (intro mult_right_mono) simp_all
  also have "\<dots> = pow2 e / 2 ^ 53"
    by (simp add: ulp_def ulp_eq)
  also have "\<dots> \<le> q / 2 ^ 53"
    using b(1) by (simp add: divide_right_mono)
  finally have err: "\<bar>r - q\<bar> \<le> q / 2 ^ 53" .
  have small: "q / 2 ^ 53 < q" using q by (simp add: field_simps)
  have "r < 2 * q" using err small by linarith
  then have hi: "r < pow2 1024" using assms(2) by (simp add: pow2_1024)
  have lo: "0 < r" using err small by linarith
  have "fl_mag q = Some r"
    using e_lo hi
    by (simp add: fl_mag_def Let_def e_def [symmetric] max_def ulp_def [symmetric]
        r_def [symmetric] not_le)
  with err lo show ?thesis by blast
qed

lemma fl_err:
  assumes "pow2 (- 1022) \<le> q" "q < pow2 1023"
  shows "\<exists>r. fl q = Fin r \<and> \<bar>r - q\<bar> \<le> q / 2 ^ 53 \<and> 0 < r"
proof -
  have q: "0 < q" using assms(1) pow2_pos [of "- 1022"] by simp
  from fl_mag_err [OF assms] obtain r
    where "fl_mag q = Some r" "\<bar>r - q\<bar> \<le> q / 2 ^ 53" "0 < r" by blast
  with q show ?thesis by (simp add: fl_def)
qed

lemma fl_overflow:
  assumes "pow2 1024 \<le> q"
  shows "fl q = PosInf"
proof -
  have q: "0 < q" using assms pow2_pos [of 1024] by simp
  define e where "e = ilog2 q"
  have b: "pow2 e \<le> q" "q < pow2 (e + 1)"
    using ilog2_bounds [OF q] by (simp_all add: e_def)
  have "pow2 1024 < pow2 (e + 1)" using assms b(2) by simp
  then have e_lo: "1024 \<le> e" using pow2_less_cancel by fastforce
  define ulp where "ulp = pow2 (e - 52)"
  have ulp: "0 < ulp" by (simp add: ulp_def pow2_pos)
  have pe: "pow2 e = 2 ^ 52 * ulp" by (simp add: ulp_def ulp_eq)
  have "2 ^ 52 \<le> q / ulp"
    using b(1) ulp by (simp add: pe field_simps)
  then have "(2 ^ 52 :: rat) - 1 / 2 \<le> of_int (rne (q / ulp))"
    using rne_bounds [of "q / ulp"] by linarith
  then have "(of_int (2 ^ 52 - 1) :: rat) < of_int (rne (q / ulp))"
    by simp
  then have "2 ^ 52 - 1 < rne (q / ulp)"
    by (simp only: of_int_less_iff)
  then have "(2 ^ 52 :: rat) \<le> of_int (rne (q / ulp))"
    by (metis of_int_le_iff of_int_numeral of_int_power zless_imp_add1_zle diff_add_cancel)
  then have "pow2 e \<le> of_int (rne (q / ulp)) * ulp"
    using ulp by (simp add: pe)
  moreover have "pow2 1024 \<le> pow2 e" using e_lo by (rule pow2_mono)
  ultimately have "pow2 1024 \<le> of_int (rne (q / ulp)) * ulp" by simp
  then have "fl_mag q = None"
    using e_lo by (simp add: fl_mag_def Let_def e_def [symmetric] max_def ulp_def [symmetric])
  with q show ?thesis by (simp add: fl_def)
qed

lemma fl_pow2:
  assumes "- 1022 \<le> e" "e \<le> 1023"
  shows "fl (pow2 e) = Fin (pow2 e)"
proof -
  have "pow2 e < pow2 1024" using assms(2) by (intro pow2_strict_mono) simp
  then have "fl (pow2 e) = Fin (of_int (2 ^ 52) * pow2 (e - 52))"
    using assms(1) by (intro fl_eqI) (simp_all add: pow2_strict_mono ulp_eq pow2_pos [THEN less_imp_neq, symmetric])
  then show ?thesis by (simp add: ulp_eq)
qed

section \<open>Basic facts\<close>

lemma strip_empty_iff: "strip s = [] \<longleftrightarrow> (\<forall>c\<in>set s. isspace c)"
proof
  assume "strip s = []"
  then have a: "\<forall>c\<in>set (dropWhile isspace s). isspace c"
    by (simp add: strip_def dropWhile_eq_Nil_conv)
  show "\<forall>c\<in>set s. isspace c"
  proof (cases "dropWhile isspace s")
    case Nil
    then show ?thesis by (simp add: dropWhile_eq_Nil_conv)
  next
    case (Cons x xs)
    then have "\<not> isspace x" using hd_dropWhile [of isspace s] by simp
    moreover have "isspace x" using a Cons by simp
    ultimately show ?thesis by simp
  qed
next
  assume "\<forall>c\<in>set s. isspace c"
  then show "strip s = []"
    by (auto simp add: strip_def dest: set_dropWhileD)
qed

lemma field_route_response:
  "field (data (route_response du di st r)) (u ''duration'') = Some du"
  "field (data (route_response du di st r)) (u ''distance'') = Some di"
  "field (data (route_response du di st r)) (u ''steps'') = Some (JArr (map JStr st))"
  "field (data (route_response du di st r)) (u ''raw'') = Some (raw_json r)"
  "status (route_response du di st r) = 200"
  "keys (data (route_response du di st r)) = [u ''duration'', u ''distance'', u ''steps'', u ''raw'']"
  by (simp_all add: route_response_def field_def keys_def u_def HTTP_200_OK_def)

lemma error_notes_route_response:
  "error_notes (data (route_response du di st r)) = Some (JArr (map JStr (r_errors r)))"
  by (simp add: error_notes_def route_response_def field_def raw_json_def u_def)

section \<open>The steps of the handler\<close>

lemma weather_step_fields:
  "r_car_info (weather_step k w r) = r_car_info r"
  "r_transit_info (weather_step k w r) = r_transit_info r"
  "r_transit_steps (weather_step k w r) = r_transit_steps r"
  "r_car_path (weather_step k w r) = r_car_path r"
  "r_errors (weather_step k w r) =
     r_errors r @ (if k \<noteq> [] \<and> isl (weather_try w) then [msg_weather_failed] else [])"
  by (simp_all add: weather_step_def add_error_def split: sum.splits)

lemma car_step_fields:
  "r_car_info (car_step rt c r) = fst (car_try rt c)"
  "r_car_path (car_step rt c r) = fst (snd (car_try rt c))"
  "r_transit_info (car_step rt c r) = r_transit_info r"
  "r_transit_steps (car_step rt c r) = r_transit_steps r"
  "r_weather (car_step rt c r) = r_weather r"
  "r_errors (car_step rt c r) =
     r_errors r @ (if snd (snd (car_try rt c)) \<noteq> None then [msg_car_failed] else [])"
  by (simp_all add: car_step_def add_error_def split: prod.splits option.splits)

lemma transit_step_fields:
  "r_car_info (transit_step_of rt t r) = r_car_info r"
  "r_car_path (transit_step_of rt t r) = r_car_path r"
  "r_transit_info (transit_step_of rt t r) = fst (transit_try rt t)"
  "r_transit_steps (transit_step_of rt t r) = fst (snd (transit_try rt t))"
  "r_weather (transit_step_of rt t r) = r_weather r"
  "r_errors (transit_step_of rt t r) =
     r_errors r @ (if snd (snd (transit_try rt t)) \<noteq> None then [msg_transit_failed] else [])"
  by (simp_all add: transit_step_of_def add_error_def split: prod.splits option.splits)

lemma gathered_fields:
  "r_car_info (gathered rt env up q) = fst (car_try rt (car_reply up))"
  "r_transit_info (gathered rt env up q) = fst (transit_try rt (transit_reply up))"
  "r_transit_steps (gathered rt env up q) = fst (snd (transit_try rt (transit_reply up)))"
  "r_errors (gathered rt env up q) =
     (if OPENWEATHER_API_KEY env \<noteq> [] \<and> isl (weather_try (weather_reply up))
      then [msg_weather_failed] else [])
     @ (if snd (snd (car_try rt (car_reply up))) \<noteq> None then [msg_car_failed] else [])
     @ (if snd (snd (transit_try rt (transit_reply up))) \<noteq> None then [msg_transit_failed] else [])"
  by (simp_all add: gathered_def weather_step_fields car_step_fields transit_step_fields
      initial_bundle_def)

lemma get_routing:
  assumes "reaches_routing rt env up q"
  shows "get rt env up q =
     bind_exn (shape rt (mode_of q) (departure_of q) (destination_of q)
                 (fst (car_try rt (car_reply up))) (fst (transit_try rt (transit_reply up)))
                 (fst (snd (transit_try rt (transit_reply up)))))
       (\<lambda>shaped. case shaped of
          None \<Rightarrow> Inr (route_response JNull JNull []
                     (add_error msg_no_route (gathered rt env up q)))
        | Some (duration, distance, steps) \<Rightarrow>
            Inr (route_response (JStr duration) (JStr distance) steps (gathered rt env up q)))"
  using assms
  by (auto simp add: get_def reaches_routing_def Let_def geocode_notes_def gathered_def
      weather_step_fields car_step_fields transit_step_fields)

section \<open>Shaping and sample evaluations\<close>

lemma u_simps: "u [] = []" "u (c # cs) = of_char c # u cs"
  by (simp_all add: u_def)

lemma shape_car:
  "shape rt (u ''car'') dep dest (Some c) ti ts =
     Inr (Some (about_minutes (str_int (time_min c)), km_text (repr_float (distance_km c)),
                car_steps dep (repr_float (distance_km c)) dest))"
  by (simp add: shape_def)

lemma shape_walk:
  "shape rt (u ''walk'') dep dest (Some c) ti ts =
     bind_exn (walk_minutes (distance_km c)) (\<lambda>wm.
       Inr (Some (about_minutes (str_int wm), km_text (repr_float (distance_km c)),
                  walk_steps dep (repr_float (distance_km c)) dest)))"
  by (simp add: shape_def u_simps)

lemma shape_unrecognized:
  assumes "mode \<noteq> u ''car''" "mode \<noteq> u ''transit''" "mode \<noteq> u ''walk''"
  shows "shape rt mode dep dest ci ti ts = Inr None"
  using assms by (simp add: shape_def)

lemma shape_no_data:
  "shape rt (u ''car'') dep dest None ti ts = Inr None"
  "shape rt (u ''walk'') dep dest None ti ts = Inr None"
  by (simp_all add: shape_def u_simps)

lemma rne_0: "rne 0 = 0"
  using rne_of_int [of 0] by simp

lemma int_truediv_0: "int_truediv 0 1000 = Inr (Fin 0)"
  by (simp add: int_truediv_def fl_def)

lemma round1_0: "round1 (Fin 0) = Fin 0"
  by (simp add: round1_def rne_0)

lemma repr_float_0: "repr_float (Fin 0) = u ''0.0''"
  by (simp add: repr_float_def)

lemma str_int_0: "str_int 0 = u ''0''"
  by (simp add: str_int_def digits.simps u_simps)


lemma car_try_fst:
  assumes "fetch_json reply = Inr doc"
    and "dict_get doc (u ''features'') (JArr []) = Inr features"
    and "truthy features" and "car_info_of rt features = Inr c"
  shows "fst (car_try rt reply) = Some c"
proof (cases "iterate features")
  case (Inl e)
  with assms show ?thesis by (simp add: car_try_def bind_exn_def)
next
  case (Inr fs)
  with assms show ?thesis
    by (cases "car_path_loop fs []") (simp add: car_try_def bind_exn_def)
qed

lemma car_info_of_props:
  assumes "dict_get (JObj feature) (u ''properties'') (JObj []) = Inr (JObj props)"
    and "map_of props (u ''totalTime'') = None" "map_of props (u ''totalDistance'') = None"
  shows "car_info_of rt (JArr (JObj feature # fs)) = Inr \<lparr>time_min = 0, distance_km = Fin 0\<rparr>"
  using assms
  by (simp add: car_info_of_def bind_exn_def getitem0_def py_int_def int_truediv_0 round1_0
      dict_get_def [of "JObj props"])

lemma car_info_no_totals:
  assumes "no_totals feature"
  shows "car_info_of rt (JArr (JObj feature # fs)) = Inr \<lparr>time_min = 0, distance_km = Fin 0\<rparr>"
proof (cases "map_of feature (u ''properties'')")
  case None
  then have "dict_get (JObj feature) (u ''properties'') (JObj []) = Inr (JObj [])"
    by (simp add: dict_get_def)
  then show ?thesis by (rule car_info_of_props) simp_all
next
  case (Some v)
  with assms obtain props where v: "v = JObj props"
    and t: "map_of props (u ''totalTime'') = None" "map_of props (u ''totalDistance'') = None"
    by (cases v) (simp_all add: no_totals_def)
  from Some v have "dict_get (JObj feature) (u ''properties'') (JObj []) = Inr (JObj props)"
    by (simp add: dict_get_def)
  then show ?thesis using t by (rule car_info_of_props)
qed

lemma strip_ident:
  assumes "s \<noteq> []" "\<not> isspace (hd s)" "\<not> isspace (last s)"
  shows "strip s = s"
proof -
  from assms have a: "dropWhile isspace s = s" by (cases s) simp_all
  from assms have "dropWhile isspace (rev s) = rev s"
    by (cases "rev s") (simp_all add: last_rev [symmetric] hd_rev)
  with a show ?thesis by (simp add: strip_def)
qed

lemma sample_endpoints:
  "departure_of (sample_query m) = u ''A''" "destination_of (sample_query m) = u ''B''"
  by (simp_all add: departure_of_def destination_of_def sample_query_def param_or_def
      strip_ident u_simps isspace_def)

lemma sample_modes:
  "mode_of (sample_query ''car'') = u ''car''"
  "mode_of (sample_query ''walk'') = u ''walk''"
  "mode_of (sample_query ''bike'') = u ''bike''"
  by (simp_all add: mode_of_def sample_query_def param_or_def strip_ident u_simps isspace_def)

lemma sample_geocode:
  assumes "keyword \<noteq> []" "app_key \<noteq> []"
  shows "tmap_geocode rt keyword app_key (Reply 200 (Some (poi_payload noor_poi)))
       = Some (Fin (75 / 2), Fin 127)"
  using assms
  by (simp add: tmap_geocode_def geocode_try_def fetch_json_def bind_exn_def dict_get_def
      poi_payload_def noor_poi_def getitem0_def or_chain_def py_float_def u_simps)

lemma sample_reaches: "reaches_routing rt sample_env (sample_upstream c) (sample_query m)"
  by (simp add: reaches_routing_def sample_endpoints sample_geocode)
     (simp add: sample_env_def sample_upstream_def sample_geocode u_simps)

section \<open>Rounding metres to kilometres\<close>

lemma pow2_m1022_le: "pow2 (- 1022) \<le> 1 / 1000"
proof -
  have "pow2 (- 1022) \<le> pow2 (- 10)" by (rule pow2_mono) simp
  also have "\<dots> \<le> 1 / 1000" by (simp add: pow2_def)
  finally show ?thesis .
qed

lemma pow2_53_le: "2 ^ 53 \<le> pow2 1023"
proof -
  have "(2::rat) ^ 53 = pow2 53" by (simp add: pow2_def)
  also have "\<dots> \<le> pow2 1023" by (rule pow2_mono) simp
  finally show ?thesis .
qed

lemma int_truediv_err:
  assumes "0 < d" "d < 2 ^ 53"
  shows "\<exists>x. int_truediv d 1000 = Inr (Fin x)
           \<and> \<bar>x - of_int d / 1000\<bar> \<le> of_int d / 1000 / 2 ^ 53 \<and> 0 < x"
proof -
  have d1: "(1::rat) \<le> of_int d" using assms(1) by simp
  have d2: "(of_int d :: rat) < 2 ^ 53"
    using assms(2) by (metis of_int_less_iff of_int_numeral of_int_power)
  have lo: "pow2 (- 1022) \<le> of_int d / 1000"
    using pow2_m1022_le d1 by linarith
  have hi: "of_int d / 1000 < pow2 1023"
    using pow2_53_le d1 d2 by linarith
  from fl_err [OF lo hi] obtain r where
    "fl (of_int d / 1000) = Fin r" "\<bar>r - of_int d / 1000\<bar> \<le> of_int d / 1000 / 2 ^ 53" "0 < r"
    by blast
  then show ?thesis by (simp add: int_truediv_def)
qed

lemma round1_tenths:
  assumes "0 < d" "d < 2 ^ 53"
    and "\<bar>x - of_int d / 1000\<bar> \<le> of_int d / 1000 / 2 ^ 53" "0 < x"
  shows "\<exists>k. round1 (Fin x) = float_of_tenths k \<and> nearest_tenths d k"
proof -
  define k where "k = rne (x * 10)"
  have d2: "(of_int d :: rat) < 2 ^ 53"
    using assms(2) by (metis of_int_less_iff of_int_numeral of_int_power)
  have "of_int d / 1000 / 2 ^ 53 < (1 / 1000 :: rat)"
    using d2 by (simp add: field_simps)
  with assms(3) have "\<bar>x - of_int d / 1000\<bar> < 1 / 1000" by linarith
  then have a: "\<bar>x * 10 - of_int d / 100\<bar> < 1 / 100" by (simp add: abs_if split: if_splits) 
  have b: "\<bar>of_int k - x * 10\<bar> \<le> 1 / 2" unfolding k_def by (rule rne_bounds)
  from a b have "\<bar>of_int k - of_int d / (100::rat)\<bar> < 51 / 100" by linarith
  then have "\<bar>(of_int (100 * k - d) :: rat)\<bar> < 51" by (simp add: abs_if field_simps split: if_splits)
  then have "\<bar>100 * k - d\<bar> < 51"
    by (metis of_int_abs of_int_less_iff of_int_numeral)
  then have n: "nearest_tenths d k" by (simp add: nearest_tenths_def)
  have "round1 (Fin x) = float_of_tenths k"
    using assms(4) by (simp add: round1_def Let_def k_def [symmetric] float_of_tenths_def fl_def)
  with n show ?thesis by blast
qed

lemma fl_numeral_eqI:
  assumes "pow2 e \<le> q" "q < pow2 (e + 1)" "- 1022 \<le> e"
    and "\<bar>q / pow2 (e - 52) - of_int m\<bar> < 1 / 2"
    and "of_int m * pow2 (e - 52) < pow2 1024"
    and "r = of_int m * pow2 (e - 52)"
  shows "fl q = Fin r"
  using fl_eqI [OF assms(1-5)] assms(6) by simp

lemma car_info_of_totals:
  assumes "map_of feature (u ''properties'') = Some (JObj props)"
    and "map_of props (u ''totalTime'') = Some (JInt t)"
    and "map_of props (u ''totalDistance'') = Some (JInt d)"
  shows "car_info_of rt (JArr (JObj feature # fs)) =
     bind_exn (int_truediv d 1000) (\<lambda>km. Inr \<lparr>time_min = t div 60, distance_km = round1 km\<rparr>)"
  using assms by (simp add: car_info_of_def bind_exn_def getitem0_def dict_get_def py_int_def)

lemma float_of_tenths_0: "float_of_tenths 0 = Fin 0"
  by (simp add: float_of_tenths_def fl_def)

lemma car_info_tenths:
  assumes "0 \<le> d" "d < 2 ^ 53"
  shows "\<exists>k. bind_exn (int_truediv d 1000)
              (\<lambda>km. Inr \<lparr>time_min = m, distance_km = round1 km\<rparr>)
            = Inr \<lparr>time_min = m, distance_km = float_of_tenths k\<rparr> \<and> nearest_tenths d k"
proof (cases "d = 0")
  case True
  then show ?thesis
    by (intro exI [of _ 0])
       (simp add: int_truediv_0 round1_0 float_of_tenths_0 bind_exn_def nearest_tenths_def)
next
  case False
  with assms have d: "0 < d" by simp
  from int_truediv_err [OF d assms(2)] obtain x where
    x: "int_truediv d 1000 = Inr (Fin x)"
      "\<bar>x - of_int d / 1000\<bar> \<le> of_int d / 1000 / 2 ^ 53" "0 < x" by blast
  from round1_tenths [OF d assms(2) x(2,3)] obtain k where
    "round1 (Fin x) = float_of_tenths k" "nearest_tenths d k" by blast
  with x(1) show ?thesis by (intro exI [of _ k]) (simp add: bind_exn_def)
qed

lemma fl_23456: "int_truediv 23456 1000 = Inr (Fin (6602277053725147 / 281474976710656))"
proof -
  have "fl (of_int 23456 / of_int 1000) = Fin (6602277053725147 / 281474976710656)"
    by (rule fl_numeral_eqI [where e = 4 and m = 6602277053725147]) (simp_all add: pow2_def)
  then show ?thesis by (simp add: int_truediv_def)
qed

lemma tenths_235: "float_of_tenths 235 = Fin (47 / 2)"
  unfolding float_of_tenths_def
  by (rule fl_numeral_eqI [where e = 4 and m = 6614661952700416]) (simp_all add: pow2_def)

lemma truediv_big: "int_truediv 17592186044416049 1000 = Inr (Fin (4503599627370509 / 256))"
proof -
  have "fl (of_int 17592186044416049 / of_int 1000) = Fin (4503599627370509 / 256)"
    by (rule fl_numeral_eqI [where e = 44 and m = 4503599627370509]) (simp_all add: pow2_def)
  then show ?thesis by (simp add: int_truediv_def)
qed

lemma round1_big: "round1 (Fin (4503599627370509 / 256)) = Fin (2251799813685261 / 128)"
proof -
  have r: "rne (4503599627370509 / 256 * 10) = 175921860444161"
    by (rule rne_eqI) simp_all
  have "fl (of_int 175921860444161 / 10) = Fin (2251799813685261 / 128)"
    by (rule fl_numeral_eqI [where e = 44 and m = 4503599627370522]) (simp_all add: pow2_def)
  with r show ?thesis by (simp add: round1_def)
qed

lemma tenths_big: "float_of_tenths 175921860444160 = Fin 17592186044416"
  unfolding float_of_tenths_def
  by (rule fl_numeral_eqI [where e = 44 and m = 4503599627370496]) (simp_all add: pow2_def)

lemma route_payload_car:
  "fst (car_try rt (Reply 200 (Some (route_payload t d)))) =
     (case int_truediv d 1000 of Inl e \<Rightarrow> None
      | Inr km \<Rightarrow> Some \<lparr>time_min = t div 60, distance_km = round1 km\<rparr>)"
proof -
  let ?f = "[(u ''properties'', JObj [(u ''totalTime'', JInt t), (u ''totalDistance'', JInt d)])]"
  have i: "car_info_of rt (JArr [JObj ?f]) =
     bind_exn (int_truediv d 1000) (\<lambda>km. Inr \<lparr>time_min = t div 60, distance_km = round1 km\<rparr>)"
    by (rule car_info_of_totals
          [where props = "[(u ''totalTime'', JInt t), (u ''totalDistance'', JInt d)]"])
       (simp_all add: u_simps)
  have l: "car_path_loop [JObj ?f] [] = ([], None)"
    by (simp add: dict_get_def u_simps)
  show ?thesis
    by (cases "int_truediv d 1000")
       (simp_all add: car_try_def route_payload_def fetch_json_def dict_get_def [of "JObj [(u ''features'', x)]" for x]
          bind_exn_def i l iterate_def)
qed


lemma route_payload_parts:
  "fetch_json (Reply 200 (Some (route_payload t d))) = Inr (route_payload t d)"
  "dict_get (route_payload t d) (u ''features'') (JArr []) =
     Inr (JArr (JObj [(u ''properties'', JObj [(u ''totalTime'', JInt t), (u ''totalDistance'', JInt d)])] # []))"
  by (simp_all add: fetch_json_def route_payload_def dict_get_def)

section \<open>Walking time\<close>

lemma walk_float_bound:
  assumes "0 < K" "K < 2 ^ 49"
  shows "\<exists>v. float_mul_int (float_div_int (float_of_tenths K) 4) 60 = Fin v
           \<and> \<bar>v - 3 * of_int K / 2\<bar> < 1 / 2 \<and> 0 < v"
proof -
  define q0 :: rat where "q0 = of_int K / 10"
  have K1: "(1::rat) \<le> of_int K" using assms(1) by simp
  have "(of_int K :: rat) < of_int (2 ^ 49)" using assms(2) by (simp only: of_int_less_iff)
  then have K2: "(of_int K :: rat) < 2 ^ 49" by simp
  have q0l: "1 / 10 \<le> q0" using K1 by (simp add: q0_def)
  have q0u: "q0 < 2 ^ 49 / 10" using K2 by (simp add: q0_def)
  have lo: "pow2 (- 1022) \<le> 1 / 1000" by (rule pow2_m1022_le)
  have hi: "(2::rat) ^ 53 \<le> pow2 1023" by (rule pow2_53_le)
  have p53: "(2::rat) ^ 53 = 9007199254740992" by simp
  have p49: "(2::rat) ^ 49 = 562949953421312" by simp
  have "pow2 (- 1022) \<le> q0" "q0 < pow2 1023"
    using q0l q0u lo hi [unfolded p53] p49 by linarith+
  from fl_err [OF this] obtain x where
    x: "fl q0 = Fin x" "\<bar>x - q0\<bar> \<le> q0 / 2 ^ 53" "0 < x" by blast
  note x2 = x(2) [unfolded p53]
  have xb: "q0 / 2 \<le> x" "x \<le> 2 * q0" using x2 q0l by linarith+
  have "pow2 (- 1022) \<le> x / 4" "x / 4 < pow2 1023" using xb q0l q0u lo hi [unfolded p53] p49 by linarith+
  from fl_err [OF this] obtain y where
    y: "fl (x / 4) = Fin y" "\<bar>y - x / 4\<bar> \<le> x / 4 / 2 ^ 53" "0 < y" by blast
  note y2 = y(2) [unfolded p53]
  have yb: "q0 / 16 \<le> y" "y \<le> q0" using y2 xb q0l by linarith+
  have "pow2 (- 1022) \<le> y * 60" "y * 60 < pow2 1023" using yb q0l q0u lo hi [unfolded p53] p49 by linarith+
  from fl_err [OF this] obtain v where
    v: "fl (y * 60) = Fin v" "\<bar>v - y * 60\<bar> \<le> y * 60 / 2 ^ 53" "0 < v" by blast
  note v2 = v(2) [unfolded p53]
  have "\<bar>v - 15 * q0\<bar> < 1 / 2"
    using x2 y2 v2 q0l q0u p49 by linarith
  then have "\<bar>v - 3 * of_int K / 2\<bar> < 1 / 2" by (simp add: q0_def)
  moreover have "float_mul_int (float_div_int (float_of_tenths K) 4) 60 = Fin v"
    using x(1) y(1) v(1) by (simp add: float_of_tenths_def float_div_int_def float_mul_int_def q0_def)
  ultimately show ?thesis using v(3) by blast
qed

lemma fl_exact:
  assumes "0 < n" "n < 2 ^ 53" "- 1022 \<le> s" "s \<le> 900"
  shows "fl (of_int n * pow2 s) = Fin (of_int n * pow2 s)"
proof -
  define e0 where "e0 = ilog2 (of_int n)"
  have n0: "(0::rat) < of_int n" using assms(1) by simp
  from ilog2_bounds [OF n0] have b: "pow2 e0 \<le> of_int n" "of_int n < pow2 (e0 + 1)"
    by (simp_all add: e0_def)
  have "(1::rat) \<le> of_int n" using assms(1) by simp
  with b(2) have "pow2 0 < pow2 (e0 + 1)" by (simp add: pow2_def)
  then have e0l: "0 \<le> e0" using pow2_less_cancel [of 0 "e0 + 1"] by simp
  have "(of_int n :: rat) < of_int (2 ^ 53)" using assms(2) by (simp only: of_int_less_iff)
  then have "(of_int n :: rat) < pow2 53" by (simp add: pow2_def)
  with b(1) have "pow2 e0 < pow2 53" by simp
  then have e0u: "e0 \<le> 52" using pow2_less_cancel [of e0 53] by simp
  define m where "m = n * 2 ^ nat (52 - e0)"
  have m: "(of_int m :: rat) = of_int n * pow2 (52 - e0)"
    using e0u by (simp add: m_def pow2_def)
  have p: "0 < pow2 s" by (rule pow2_pos)
  have 1: "pow2 (e0 + s) \<le> of_int n * pow2 s"
    using b(1) p by (simp add: pow2_add)
  have 2: "of_int n * pow2 s < pow2 (e0 + s + 1)"
    using b(2) p pow2_add [of "e0 + 1" s] by (simp add: add.commute add.left_commute)
  have 3: "- 1022 \<le> e0 + s" using e0l assms(3) by simp
  have "pow2 (e0 + s - 52) * pow2 (52 - e0) = pow2 s"
    using pow2_add [of "e0 + s - 52" "52 - e0"] by simp
  then have q: "of_int n * pow2 s / pow2 (e0 + s - 52) = of_int m"
    using pow2_pos [of "e0 + s - 52"] by (simp add: m field_simps)
  have 4: "\<bar>of_int n * pow2 s / pow2 (e0 + s - 52) - of_int m\<bar> < 1 / 2"
    by (simp add: q)
  have r: "of_int m * pow2 (e0 + s - 52) = of_int n * pow2 s"
    using q pow2_pos [of "e0 + s - 52"] by (simp add: field_simps)
  have "pow2 (e0 + s + 1) \<le> pow2 1024" using e0u assms(4) by (intro pow2_mono) simp
  with 2 have 5: "of_int m * pow2 (e0 + s - 52) < pow2 1024" by (simp add: r)
  from fl_eqI [OF 1 2 3 4 5] show ?thesis by (simp add: r)
qed

lemma fl_of_int:
  assumes "0 < n" "n < 2 ^ 53"
  shows "fl (of_int n) = Fin (of_int n)"
  using fl_exact [OF assms, of 0] by (simp add: pow2_def)

lemma walk_estimate_eq: "walk_estimate K = (3 * K) div 2"
proof -
  have "(of_int K / 10 :: rat) / 4 * 60 = of_int (3 * K) / of_int 2" by simp
  then show ?thesis unfolding walk_estimate_def by (simp only: floor_divide_of_int_eq)
qed

lemma walk_minutes_whole:
  assumes "0 \<le> j" "j < 2 ^ 49"
  shows "walk_minutes (float_of_tenths (10 * j)) = Inr (15 * j)"
proof (cases "j = 0")
  case True
  then show ?thesis
    by (simp add: walk_minutes_def float_of_tenths_def fl_def float_div_int_def
        float_mul_int_def float_to_int_def)
next
  case False
  with assms have j: "0 < j" by simp
  have j53: "j < 2 ^ 53" using assms(2) by simp
  have j15: "15 * j < 2 ^ 53" using assms(2) by simp
  have a: "fl (of_int j) = Fin (of_int j)" using j j53 by (rule fl_of_int)
  have "fl (of_int j * pow2 (- 2)) = Fin (of_int j * pow2 (- 2))"
    using j j53 by (rule fl_exact) simp_all
  then have b: "fl (of_int j / 4) = Fin (of_int j / 4)" by (simp add: pow2_def)
  have "fl (of_int (15 * j)) = Fin (of_int (15 * j))"
    using j j15 by (intro fl_of_int) simp_all
  then have c: "fl (of_int j / 4 * 60) = Fin (of_int (15 * j))" by simp
  have t: "float_of_tenths (10 * j) = Fin (of_int j)"
    using a by (simp add: float_of_tenths_def)
  have d: "float_div_int (Fin (of_int j)) 4 = Fin (of_int j / 4)"
    using b by (simp add: float_div_int_def)
  have m: "float_mul_int (Fin (of_int j / 4)) 60 = Fin (of_int (15 * j))"
    using c by (simp add: float_mul_int_def)
  have i: "float_to_int (Fin (of_int (15 * j))) = Inr (15 * j)"
    using j unfolding float_to_int_def by (simp only: floor_of_int pyfloat.case of_int_0_le_iff) simp
  show ?thesis unfolding walk_minutes_def t d m i ..
qed

lemma floor_near_half:
  fixes v :: rat
  assumes "\<bar>v - 3 * of_int K / 2\<bar> < 1 / 2"
  shows "(3 * K) div 2 - 1 \<le> \<lfloor>v\<rfloor> \<and> \<lfloor>v\<rfloor> \<le> (3 * K) div 2
       \<and> (odd K \<longrightarrow> \<lfloor>v\<rfloor> = (3 * K) div 2)"
proof (cases "even K")
  case True
  then obtain j where j: "K = 2 * j" by (auto elim: evenE)
  have d: "(3 * K) div 2 = 3 * j" by (simp add: j)
  have e: "(3 * of_int K / 2 :: rat) = 3 * of_int j" by (simp add: j)
  from assms [unfolded e] have "3 * of_int j - 1 \<le> v \<and> v < 3 * of_int j + 1" by linarith
  then have "of_int (3 * j - 1) \<le> v" "v < of_int (3 * j + 1)" by simp_all
  then have "3 * j - 1 \<le> \<lfloor>v\<rfloor>" "\<lfloor>v\<rfloor> < 3 * j + 1"
    by (simp_all only: le_floor_iff floor_less_iff)
  with True d show ?thesis by simp
next
  case False
  then obtain j where j: "K = 2 * j + 1" by (auto elim: oddE)
  have d: "(3 * K) div 2 = 3 * j + 1" by (simp add: j)
  have e: "(3 * of_int K / 2 :: rat) = 3 * of_int j + 3 / 2" by (simp add: j)
  from assms [unfolded e] have "3 * of_int j + 1 \<le> v \<and> v < 3 * of_int j + 2" by linarith
  then have "of_int (3 * j + 1) \<le> v" "v < of_int (3 * j + 1) + 1" by simp_all
  then have "\<lfloor>v\<rfloor> = 3 * j + 1" by (intro floor_unique)
  with d show ?thesis by simp
qed

lemma walk_minutes_tenths:
  assumes "0 \<le> K" "K < 2 ^ 49"
  shows "\<exists>m. walk_minutes (float_of_tenths K) = Inr m
           \<and> walk_estimate K - 1 \<le> m \<and> m \<le> walk_estimate K
           \<and> (odd K \<or> K mod 10 = 0 \<longrightarrow> m = walk_estimate K)"
proof (cases "K mod 10 = 0")
  case True
  then obtain j where j: "K = 10 * j" by (auto simp add: mod_eq_0_iff_dvd)
  with assms have "0 \<le> j" "j < 2 ^ 49" by simp_all
  then have "walk_minutes (float_of_tenths K) = Inr (15 * j)"
    unfolding j by (rule walk_minutes_whole)
  moreover have "walk_estimate K = 15 * j" by (simp add: walk_estimate_eq j)
  ultimately show ?thesis by simp
next
  case False
  with assms have K: "0 < K" by (cases "K = 0") simp_all
  from walk_float_bound [OF K assms(2)] obtain v where
    v: "float_mul_int (float_div_int (float_of_tenths K) 4) 60 = Fin v"
       "\<bar>v - 3 * of_int K / 2\<bar> < 1 / 2" "0 < v" by blast
  have "walk_minutes (float_of_tenths K) = Inr \<lfloor>v\<rfloor>"
    using v(1,3) by (simp add: walk_minutes_def float_to_int_def)
  with floor_near_half [OF v(2)] False show ?thesis
    by (simp add: walk_estimate_eq)
qed

lemma route_payload_exact:
  assumes "0 \<le> K" "100 * K < 2 ^ 53"
  shows "fst (car_try rt (Reply 200 (Some (route_payload t (100 * K)))))
       = Some \<lparr>time_min = t div 60, distance_km = float_of_tenths K\<rparr>"
proof -
  have "0 \<le> 100 * K" using assms(1) by simp
  from car_info_tenths [OF this assms(2), of "t div 60"] obtain k where
    k: "bind_exn (int_truediv (100 * K) 1000) (\<lambda>km. Inr \<lparr>time_min = t div 60, distance_km = round1 km\<rparr>)
        = Inr \<lparr>time_min = t div 60, distance_km = float_of_tenths k\<rparr>"
    and n: "nearest_tenths (100 * K) k" by blast
  from n have "k = K" by (simp add: nearest_tenths_def)
  with k show ?thesis
    by (cases "int_truediv (100 * K) 1000") (simp_all add: route_payload_car bind_exn_def)
qed

lemma tenths_82: "float_of_tenths 82 = Fin (2308094809027379 / 281474976710656)"
  unfolding float_of_tenths_def
  by (rule fl_numeral_eqI [where e = 3 and m = 4616189618054758]) (simp_all add: pow2_def)

lemma walk_minutes_82: "walk_minutes (float_of_tenths 82) = Inr 122"
proof -
  have d0: "fl (2308094809027379 / 281474976710656 / 4) = Fin (2308094809027379 / 1125899906842624)"
    by (rule fl_numeral_eqI [where e = 1 and m = 4616189618054758]) (simp_all add: pow2_def)
  have m0: "fl (2308094809027379 / 1125899906842624 * 60) = Fin (8655355533852671 / 70368744177664)"
    by (rule fl_numeral_eqI [where e = 6 and m = 8655355533852671]) (simp_all add: pow2_def)
  have d: "float_div_int (float_of_tenths 82) 4 = Fin (2308094809027379 / 1125899906842624)"
    by (simp only: tenths_82 float_div_int_def pyfloat.case of_int_numeral d0)
  have m: "float_mul_int (Fin (2308094809027379 / 1125899906842624)) 60
         = Fin (8655355533852671 / 70368744177664)"
    by (simp only: float_mul_int_def pyfloat.case of_int_numeral m0)
  have f: "\<lfloor>8655355533852671 / 70368744177664 :: rat\<rfloor> = 122"
    by (rule floor_unique) simp_all
  have "float_to_int (Fin (8655355533852671 / 70368744177664)) = Inr 122"
    unfolding float_to_int_def pyfloat.case f by simp
  then show ?thesis by (simp only: walk_minutes_def d m)
qed

lemma get_walk:
  assumes "reaches_routing rt env up q" and "mode_of q = u ''walk''"
    and "fst (car_try rt (car_reply up)) = Some c"
    and "walk_minutes (distance_km c) = Inr m"
  shows "answer_field (get rt env up q) (u ''duration'') = Some (JStr (about_minutes (str_int m)))"
proof -
  have "get rt env up q =
      Inr (route_response (JStr (about_minutes (str_int m)))
             (JStr (km_text (repr_float (distance_km c))))
             (walk_steps (departure_of q) (repr_float (distance_km c)) (destination_of q))
             (gathered rt env up q))"
    by (simp add: get_routing [OF assms(1)] assms(2,3,4) shape_walk bind_exn_def)
  then show ?thesis by (simp add: answer_field_def field_route_response)
qed

lemma str_int_3digits: "str_int 120 = [49, 50, 48]" "str_int 122 = [49, 50, 50]"
  by (simp_all add: str_int_def digits.simps)

section \<open>Exceptions that leave the handler\<close>

lemma fl_not_nan: "fl q \<noteq> NaN"
  by (simp add: fl_def split: option.splits)

lemma int_truediv_finite:
  assumes "int_truediv a b = Inr x"
  shows "x \<noteq> NaN \<and> x \<noteq> PosInf \<and> x \<noteq> NegInf"
  using assms fl_not_nan [of "of_int a / of_int b"]
  by (cases "fl (of_int a / of_int b)") (auto simp add: int_truediv_def)

lemma round1_not_nan: "x \<noteq> NaN \<Longrightarrow> round1 x \<noteq> NaN"
  by (cases x) (simp_all add: round1_def Let_def fl_not_nan)

lemma car_info_of_not_nan:
  assumes "car_info_of rt features = Inr c"
  shows "distance_km c \<noteq> NaN"
proof -
  from assms obtain d km where "int_truediv d 1000 = Inr km" "distance_km c = round1 km"
    by (auto simp add: car_info_of_def bind_exn_def split: sum.splits)
  then show ?thesis using int_truediv_finite [of d 1000 km] by (simp add: round1_not_nan)
qed

lemma car_try_info:
  assumes "fst (car_try rt reply) = Some c"
  shows "\<exists>features. car_info_of rt features = Inr c"
proof (cases "bind_exn (fetch_json reply) (\<lambda>data. dict_get data (u ''features'') (JArr []))")
  case (Inl e)
  with assms show ?thesis by (simp add: car_try_def)
next
  case (Inr features)
  show ?thesis
  proof (cases "truthy features")
    case False
    with Inr assms show ?thesis
      by (cases "iterate features"; cases "car_path_loop (projr (iterate features)) []")
         (simp_all add: car_try_def)
  next
    case True
    show ?thesis
    proof (cases "car_info_of rt features")
      case (Inl e)
      with Inr True assms show ?thesis by (simp add: car_try_def)
    next
      case ci: (Inr c')
      with Inr True assms have "c' = c"
        by (cases "iterate features"; cases "car_path_loop (projr (iterate features)) []")
           (simp_all add: car_try_def)
      with ci show ?thesis by blast
    qed
  qed
qed

lemma walk_minutes_cases:
  assumes "x \<noteq> NaN"
  shows "(\<exists>m. walk_minutes x = Inr m) \<or> walk_minutes x = Inl OverflowError"
proof -
  have a: "float_div_int x 4 \<noteq> NaN"
    using assms by (cases x) (simp_all add: float_div_int_def fl_not_nan)
  then have "float_mul_int (float_div_int x 4) 60 \<noteq> NaN"
    by (cases "float_div_int x 4") (simp_all add: float_mul_int_def fl_not_nan)
  then show ?thesis
    by (cases "float_mul_int (float_div_int x 4) 60") (simp_all add: walk_minutes_def float_to_int_def)
qed

lemma shape_raises:
  assumes "shape rt mode dep dest ci ti ts = Inl e"
  shows "mode = u ''walk'' \<and> (\<exists>c. ci = Some c \<and> walk_minutes (distance_km c) = Inl e)"
  using assms
  by (auto simp add: shape_def bind_exn_def split: if_splits option.splits sum.splits)

lemma get_early:
  assumes "\<not> reaches_routing rt env up q"
  shows "\<exists>st r. get rt env up q = Inr (route_response JNull JNull st r)"
  using assms by (auto simp add: get_def Let_def reaches_routing_def)

lemma get_shaped:
  assumes "reaches_routing rt env up q"
    and "shape rt (mode_of q) (departure_of q) (destination_of q)
           (fst (car_try rt (car_reply up))) (fst (transit_try rt (transit_reply up)))
           (fst (snd (transit_try rt (transit_reply up)))) = Inr shaped"
  shows "\<exists>du di st r. get rt env up q = Inr (route_response du di st r)"
  using assms(2) by (cases shaped) (auto simp add: get_routing [OF assms(1)] bind_exn_def)

lemma huge_truediv: "int_truediv (2 ^ 1023 * 1000) 1000 = Inr (Fin (pow2 1023))"
proof -
  have "(of_int (2 ^ 1023 * 1000) :: rat) / of_int 1000 = pow2 1023"
    by (simp add: pow2_def)
  moreover have "fl (pow2 1023) = Fin (pow2 1023)" by (rule fl_pow2) simp_all
  ultimately show ?thesis by (simp only: int_truediv_def pyfloat.case)
qed

lemma huge_round1: "round1 (Fin (pow2 1023)) = Fin (pow2 1023)"
proof -
  have "pow2 1023 * 10 = of_int (2 ^ 1023 * 10)" by (simp add: pow2_def)
  then have k: "rne (pow2 1023 * 10) = 2 ^ 1023 * 10" by (simp only: rne_of_int)
  have z: "(2 ^ 1023 * 10 :: int) \<noteq> 0" by simp
  have "(of_int (2 ^ 1023 * 10) :: rat) / 10 = pow2 1023" by (simp add: pow2_def)
  moreover have "fl (pow2 1023) = Fin (pow2 1023)" by (rule fl_pow2) simp_all
  ultimately have "fl (of_int (2 ^ 1023 * 10) / 10) = Fin (pow2 1023)" by simp
  with z show ?thesis by (simp only: round1_def pyfloat.case Let_def k if_False)
qed

lemma huge_walk: "walk_minutes (Fin (pow2 1023)) = Inl OverflowError"
proof -
  have "pow2 1023 / of_int 4 = pow2 1021"
    using pow2_add [of 1021 2] by (simp add: pow2_def [of 2])
  moreover have "fl (pow2 1021) = Fin (pow2 1021)" by (rule fl_pow2) simp_all
  ultimately have d: "float_div_int (Fin (pow2 1023)) 4 = Fin (pow2 1021)"
    by (simp only: float_div_int_def pyfloat.case)
  have "pow2 1024 = pow2 1021 * 8" using pow2_add [of 1021 3] by (simp add: pow2_def [of 3])
  then have "pow2 1024 \<le> pow2 1021 * of_int 60" using pow2_pos [of 1021] by simp
  then have "fl (pow2 1021 * of_int 60) = PosInf" by (rule fl_overflow)
  then have m: "float_mul_int (Fin (pow2 1021)) 60 = PosInf"
    by (simp only: float_mul_int_def pyfloat.case)
  show ?thesis by (simp add: walk_minutes_def d m float_to_int_def)
qed

lemma get_no_route:
  assumes "reaches_routing rt env up q"
    and "shape rt (mode_of q) (departure_of q) (destination_of q)
           (fst (car_try rt (car_reply up))) (fst (transit_try rt (transit_reply up)))
           (fst (snd (transit_try rt (transit_reply up)))) = Inr None"
  shows "get rt env up q =
      Inr (route_response JNull JNull [] (add_error msg_no_route (gathered rt env up q)))"
  by (simp add: get_routing [OF assms(1)] assms(2) bind_exn_def)

lemma sample_side_replies:
  "OPENWEATHER_API_KEY sample_env \<noteq> []"
  "isl (weather_try (weather_reply (sample_upstream c)))"
  "snd (snd (transit_try rt (transit_reply (sample_upstream c)))) \<noteq> None"
  "fst (transit_try rt (transit_reply (sample_upstream c))) = None"
  "car_reply (sample_upstream c) = c"
  by (simp_all add: sample_env_def sample_upstream_def weather_try_def transit_try_def
      fetch_json_def bind_exn_def u_simps)

lemma null_properties_car_try:
  "car_try rt (Reply 200 (Some (JObj [(u ''features'', JArr [JObj [(u ''properties'', JNull)]])])))
     = (None, [], Some AttributeError)"
  by (simp add: car_try_def fetch_json_def bind_exn_def dict_get_def car_info_of_def getitem0_def)

lemma get_car:
  assumes "reaches_routing rt env up q" and "mode_of q = u ''car''"
    and "fst (car_try rt (car_reply up)) = Some c"
  shows "get rt env up q =
      Inr (route_response (JStr (about_minutes (str_int (time_min c))))
             (JStr (km_text (repr_float (distance_km c))))
             (car_steps (departure_of q) (repr_float (distance_km c)) (destination_of q))
             (gathered rt env up q))"
  by (simp add: get_routing [OF assms(1)] assms(2,3) shape_car bind_exn_def)

lemma reaches_routing_weather:
  "reaches_routing rt env (up\<lparr>weather_reply := w\<rparr>) q = reaches_routing rt env up q"
  by (simp add: reaches_routing_def)

lemma route_payload_zero:
  "car_try rt (Reply 200 (Some (route_payload t 0)))
     = (Some \<lparr>time_min = t div 60, distance_km = Fin 0\<rparr>, [], None)"
proof -
  let ?f = "[(u ''properties'', JObj [(u ''totalTime'', JInt t), (u ''totalDistance'', JInt 0)])]"
  have i: "car_info_of rt (JArr [JObj ?f]) = Inr \<lparr>time_min = t div 60, distance_km = Fin 0\<rparr>"
    using car_info_of_totals [where feature = ?f and fs = "[]" and rt = rt and t = t and d = 0
        and props = "[(u ''totalTime'', JInt t), (u ''totalDistance'', JInt 0)]"]
    by (simp add: u_simps int_truediv_0 round1_0 bind_exn_def)
  have l: "car_path_loop [JObj ?f] [] = ([], None)"
    by (simp add: dict_get_def u_simps)
  show ?thesis
    by (simp add: car_try_def route_payload_def fetch_json_def
        dict_get_def [of "JObj [(u ''features'', x)]" for x] bind_exn_def i l iterate_def
        del: car_path_loop.simps)
qed

lemma get_cong_query:
  assumes "departure_of q' = departure_of q" "destination_of q' = destination_of q"
    and "mode_of q' = mode_of q"
  shows "get rt env up q' = get rt env up q"
  by (simp add: get_def initial_bundle_def assms)

lemma mode_of_absent:
  "mode_of (q\<lparr>q_mode := None\<rparr>) = u ''car''"
  "mode_of (q\<lparr>q_mode := Some []\<rparr>) = u ''car''"
  "mode_of (q\<lparr>q_mode := Some (u ''car'')\<rparr>) = u ''car''"
  by (simp_all add: mode_of_def param_or_def strip_ident u_simps isspace_def)

lemma car_try_fetch_fails:
  assumes "fetch_json reply = Inl e"
  shows "car_try rt reply = (None, [], Some e)"
  using assms by (simp add: car_try_def bind_exn_def)

lemma car_try_not_object:
  assumes "fetch_json reply = Inr doc" "\<forall>kvs. doc \<noteq> JObj kvs"
  shows "car_try rt reply = (None, [], Some AttributeError)"
  using assms by (cases doc) (simp_all add: car_try_def bind_exn_def dict_get_def)

lemma car_try_no_features:
  assumes "fetch_json reply = Inr (JObj kvs)"
    and "map_of kvs (u ''features'') = None \<or> map_of kvs (u ''features'') = Some (JArr [])"
  shows "car_try rt reply = (None, [], None)"
  using assms by (auto simp add: car_try_def bind_exn_def dict_get_def iterate_def)

lemma car_step_result:
  "car_try rt reply = (None, [], Some e) \<Longrightarrow>
     car_step rt reply r = (add_error msg_car_failed r)\<lparr>r_car_info := None, r_car_path := []\<rparr>"
  "car_try rt reply = (None, [], None) \<Longrightarrow>
     car_step rt reply r = r\<lparr>r_car_info := None, r_car_path := []\<rparr>"
  by (simp_all add: car_step_def)




lemma or_chain_first_truthy:
  "or_chain (JObj poi) k1 k2 k3 k4 = Inr (first_truthy poi [k1, k2, k3, k4])"
  by (simp add: or_chain_def dict_get_def bind_exn_def split: option.splits)

lemma first_truthy_present:
  assumes "\<forall>k\<in>set ks. \<forall>v. map_of poi k = Some v \<longrightarrow> truthy v"
  shows "first_truthy poi ks = first_present poi ks"
  using assms by (induction poi ks rule: first_truthy.induct) (auto split: option.splits)

lemma geocode_poi:
  assumes "keyword \<noteq> []" "app_key \<noteq> []"
  shows "tmap_geocode rt keyword app_key (Reply 200 (Some (poi_payload (JObj poi))))
       = coordinate rt (first_truthy poi lat_keys) (first_truthy poi lon_keys)"
proof -
  have d: "dict_get (JObj [(k, v)]) k dflt = Inr v" for k v dflt
    by (simp add: dict_get_def)
  have "geocode_try rt (Reply 200 (Some (poi_payload (JObj poi))))
      = (let lat = first_truthy poi lat_keys; lon = first_truthy poi lon_keys
         in if lat = JNull \<or> lon = JNull then Inr None
            else bind_exn (py_float rt lat) (\<lambda>a. bind_exn (py_float rt lon) (\<lambda>b. Inr (Some (a, b)))))"
    by (simp add: geocode_try_def fetch_json_def poi_payload_def d getitem0_def
        or_chain_first_truthy lat_keys_def lon_keys_def bind_exn_def Let_def)
  then show ?thesis
    using assms
    by (simp add: tmap_geocode_def coordinate_def Let_def bind_exn_def split: sum.splits)
qed

section \<open>Validation of the endpoints\<close>

text \<open>
  C4. When the origin (the \<^verbatim>\<open>origin\<close> parameter, else \<^verbatim>\<open>departure\<close>) or the destination
  consists of whitespace only (or is empty or absent), the handler returns the same
  response whatever the providers would answer: status 200, \<^verbatim>\<open>duration\<close> and
  \<^verbatim>\<open>distance\<close> null, \<^verbatim>\<open>steps\<close> empty, and one error note in the debug bundle.
\<close>

theorem C4_missing_endpoint:
  assumes "(\<forall>c\<in>set (param_or (q_origin q) (param_or (q_departure q) [])). isspace c)
         \<or> (\<forall>c\<in>set (param_or (q_destination q) []). isspace c)"
  shows "\<exists>resp. (\<forall>rt up. get rt env up q = Inr resp)
           \<and> status resp = 200
           \<and> field (data resp) (u ''duration'') = Some JNull
           \<and> field (data resp) (u ''distance'') = Some JNull
           \<and> field (data resp) (u ''steps'') = Some (JArr [])
           \<and> error_notes (data resp) = Some (JArr [JStr msg_need_endpoints])"
proof -
  from assms have e: "departure_of q = [] \<or> destination_of q = []"
    by (simp add: departure_of_def destination_of_def strip_empty_iff)
  let ?resp = "route_response JNull JNull [] (add_error msg_need_endpoints (initial_bundle env q))"
  have "\<forall>rt up. get rt env up q = Inr ?resp"
    using e by (auto simp add: get_def Let_def)
  moreover have "error_notes (data ?resp) = Some (JArr [JStr msg_need_endpoints])"
    by (simp add: error_notes_route_response add_error_def initial_bundle_def)
  ultimately show ?thesis
    by (intro exI [of _ ?resp]) (simp add: field_route_response)
qed

theorem C4_missing_endpoint_witness:
  "\<exists>resp. (\<forall>rt up. get rt sample_env up
                  \<lparr>q_origin = Some (u ''  ''), q_departure = None,
                   q_destination = Some (u ''B''), q_mode = None\<rparr> = Inr resp)
         \<and> status resp = 200
         \<and> field (data resp) (u ''duration'') = Some JNull
         \<and> field (data resp) (u ''distance'') = Some JNull
         \<and> field (data resp) (u ''steps'') = Some (JArr [])
         \<and> error_notes (data resp) = Some (JArr [JStr msg_need_endpoints])"
proof -
  have h: "\<forall>c\<in>set (param_or (Some (u ''  '')) (param_or None [])). isspace c"
    by (simp add: param_or_def u_def isspace_def)
  show ?thesis
    using h C4_missing_endpoint [of "\<lparr>q_origin = Some (u ''  ''), q_departure = None,
                   q_destination = Some (u ''B''), q_mode = None\<rparr>" sample_env]
    by simp
qed

section \<open>Missing route totals\<close>

text \<open>
  C10. When the driving provider answers with a non-empty \<^verbatim>\<open>features\<close> list whose first
  feature is an object that has no \<^verbatim>\<open>properties\<close> member, or whose \<^verbatim>\<open>properties\<close> are an
  object carrying neither \<^verbatim>\<open>totalTime\<close> nor \<^verbatim>\<open>totalDistance\<close>, both totals default to 0:
  the drive route has \<^verbatim>\<open>time_min = 0\<close> and \<^verbatim>\<open>distance_km = 0.0\<close>, and a \<^verbatim>\<open>car\<close> request
  that reaches the routing step answers with the duration "about 0 minutes" and the
  distance \<^verbatim>\<open>"0.0 km"\<close> instead of the no-route failure.
\<close>

theorem C10_missing_totals_default_to_zero:
  assumes "reaches_routing rt env up q" and "mode_of q = u ''car''"
    and "fetch_json (car_reply up) = Inr doc"
    and "dict_get doc (u ''features'') (JArr []) = Inr (JArr (JObj feature # fs))"
    and "no_totals feature"
  shows "fst (car_try rt (car_reply up)) = Some \<lparr>time_min = 0, distance_km = Fin 0\<rparr>
       \<and> answer_field (get rt env up q) (u ''duration'') = Some (JStr [50557, 32, 48, 48516])
       \<and> answer_field (get rt env up q) (u ''distance'') = Some (JStr (u ''0.0 km''))"
proof -
  have c: "fst (car_try rt (car_reply up)) = Some \<lparr>time_min = 0, distance_km = Fin 0\<rparr>"
    using assms(3,4) by (rule car_try_fst) (simp_all add: car_info_no_totals [OF assms(5)])
  have "get rt env up q =
      Inr (route_response (JStr (about_minutes (str_int 0))) (JStr (km_text (repr_float (Fin 0))))
             (car_steps (departure_of q) (repr_float (Fin 0)) (destination_of q))
             (gathered rt env up q))"
    by (simp add: get_routing [OF assms(1)] assms(2) c shape_car bind_exn_def)
  then have "answer_field (get rt env up q) (u ''duration'') = Some (JStr (about_minutes (str_int 0)))"
    and "answer_field (get rt env up q) (u ''distance'') = Some (JStr (km_text (repr_float (Fin 0))))"
    by (simp_all add: answer_field_def field_route_response)
  moreover have "about_minutes (str_int 0) = [50557, 32, 48, 48516]"
    by (simp add: about_minutes_def str_int_0 u_simps)
  moreover have "km_text (repr_float (Fin 0)) = u ''0.0 km''"
    by (simp add: km_text_def repr_float_0 u_simps)
  ultimately show ?thesis
    using c by simp
qed

theorem C10_missing_totals_witness:
  "fst (car_try sample_rt (Reply 200 (Some (JObj [(u ''features'', JArr [JObj []])]))))
     = Some \<lparr>time_min = 0, distance_km = Fin 0\<rparr>
   \<and> answer_field (get sample_rt sample_env
          (sample_upstream (Reply 200 (Some (JObj [(u ''features'', JArr [JObj []])]))))
          (sample_query ''car'')) (u ''duration'') = Some (JStr [50557, 32, 48, 48516])
   \<and> answer_field (get sample_rt sample_env
          (sample_upstream (Reply 200 (Some (JObj [(u ''features'', JArr [JObj []])]))))
          (sample_query ''car'')) (u ''distance'') = Some (JStr (u ''0.0 km''))"
proof -
  let ?doc = "JObj [(u ''features'', JArr [JObj []])]"
  let ?up = "sample_upstream (Reply 200 (Some ?doc))"
  have 1: "reaches_routing sample_rt sample_env ?up (sample_query ''car'')"
    by (rule sample_reaches)
  have 2: "mode_of (sample_query ''car'') = u ''car''"
    by (rule sample_modes)
  have 3: "fetch_json (car_reply ?up) = Inr ?doc"
    by (simp add: sample_upstream_def fetch_json_def)
  have 4: "dict_get ?doc (u ''features'') (JArr []) = Inr (JArr [JObj []])"
    by (simp add: dict_get_def)
  have 5: "no_totals []"
    by (simp add: no_totals_def)
  show ?thesis
    using C10_missing_totals_default_to_zero [OF 1 2 3 4 5]
    by (simp add: sample_upstream_def)
qed

text \<open>
  A first feature with \<^verbatim>\<open>"properties": null\<close> carries no totals either, but there
  \<^verbatim>\<open>props0\<close> is \<^verbatim>\<open>None\<close> and \<^verbatim>\<open>props0.get\<close> raises inside the \<^verbatim>\<open>try\<close> block: no drive route
  is built and the \<^verbatim>\<open>car\<close> request ends in the no-route failure.
\<close>

theorem C10_null_properties_counterexample:
  "car_try sample_rt
       (Reply 200 (Some (JObj [(u ''features'', JArr [JObj [(u ''properties'', JNull)]])])))
     = (None, [], Some AttributeError)
   \<and> answer_field (get sample_rt sample_env
          (sample_upstream
             (Reply 200 (Some (JObj [(u ''features'', JArr [JObj [(u ''properties'', JNull)]])]))))
          (sample_query ''car'')) (u ''duration'') = Some JNull
   \<and> answer_notes (get sample_rt sample_env
          (sample_upstream
             (Reply 200 (Some (JObj [(u ''features'', JArr [JObj [(u ''properties'', JNull)]])]))))
          (sample_query ''car''))
       = Some (JArr [JStr msg_weather_failed, JStr msg_car_failed, JStr msg_transit_failed,
                     JStr msg_no_route])"
proof -
  let ?c = "Reply 200 (Some (JObj [(u ''features'', JArr [JObj [(u ''properties'', JNull)]])]))"
  let ?up = "sample_upstream ?c"
  have 1: "reaches_routing sample_rt sample_env ?up (sample_query ''car'')"
    by (rule sample_reaches)
  have c: "car_try sample_rt (car_reply ?up) = (None, [], Some AttributeError)"
    by (simp only: sample_side_replies null_properties_car_try)
  have s: "shape sample_rt (mode_of (sample_query ''car'')) (departure_of (sample_query ''car''))
             (destination_of (sample_query ''car'')) (fst (car_try sample_rt (car_reply ?up)))
             (fst (transit_try sample_rt (transit_reply ?up)))
             (fst (snd (transit_try sample_rt (transit_reply ?up)))) = Inr None"
    by (simp only: c fst_conv sample_modes shape_no_data)
  note g = get_no_route [OF 1 s]
  have d: "answer_field (get sample_rt sample_env ?up (sample_query ''car'')) (u ''duration'')
      = Some JNull"
    by (simp only: g answer_field_def sum.case field_route_response)
  have "r_errors (gathered sample_rt sample_env ?up (sample_query ''car''))
      = [msg_weather_failed, msg_car_failed, msg_transit_failed]"
    by (simp add: gathered_fields sample_side_replies null_properties_car_try)
  then have n: "answer_notes (get sample_rt sample_env ?up (sample_query ''car''))
      = Some (JArr [JStr msg_weather_failed, JStr msg_car_failed, JStr msg_transit_failed,
                    JStr msg_no_route])"
    by (simp add: g answer_notes_def error_notes_route_response add_error_def)
  from null_properties_car_try [of sample_rt] d n show ?thesis by blast
qed

section \<open>Drive route totals\<close>

text \<open>
  C5. When the driving provider answers with a feature list whose first feature gives
  the integer totals \<^verbatim>\<open>totalTime = t\<close> seconds and \<^verbatim>\<open>totalDistance = d\<close> metres, with
  \<open>0 \<le> d < 2\<^sup>5\<^sup>3\<close>, the drive route has \<^verbatim>\<open>time_min = t // 60\<close> and \<^verbatim>\<open>distance_km\<close> is the
  float of \<open>k\<close> tenths of a kilometre, where \<open>k / 10\<close> is \<open>d / 1000\<close> rounded to one
  decimal place.
\<close>

theorem C5_drive_route_totals:
  assumes "fetch_json reply = Inr doc"
    and "dict_get doc (u ''features'') (JArr []) = Inr (JArr (JObj feature # fs))"
    and "map_of feature (u ''properties'') = Some (JObj props)"
    and "map_of props (u ''totalTime'') = Some (JInt t)"
    and "map_of props (u ''totalDistance'') = Some (JInt d)"
    and "0 \<le> d" and "d < 2 ^ 53"
  shows "\<exists>k. fst (car_try rt reply) = Some \<lparr>time_min = t div 60, distance_km = float_of_tenths k\<rparr>
           \<and> nearest_tenths d k"
proof -
  from car_info_tenths [OF assms(6,7), of "t div 60"] obtain k where
    k: "bind_exn (int_truediv d 1000) (\<lambda>km. Inr \<lparr>time_min = t div 60, distance_km = round1 km\<rparr>)
        = Inr \<lparr>time_min = t div 60, distance_km = float_of_tenths k\<rparr>"
    and n: "nearest_tenths d k" by blast
  have ci: "car_info_of rt (JArr (JObj feature # fs))
      = Inr \<lparr>time_min = t div 60, distance_km = float_of_tenths k\<rparr>"
    using car_info_of_totals [OF assms(3,4,5)] k by simp
  have "truthy (JArr (JObj feature # fs))" by simp
  with assms(1,2) have "fst (car_try rt reply)
      = Some \<lparr>time_min = t div 60, distance_km = float_of_tenths k\<rparr>"
    using ci by (rule car_try_fst)
  with n show ?thesis by blast
qed

text \<open>The totals 2400 s and 23456 m give 40 minutes and 23.5 km.\<close>

theorem C5_drive_route_totals_witness:
  "fst (car_try sample_rt (Reply 200 (Some (route_payload 2400 23456))))
     = Some \<lparr>time_min = 40, distance_km = Fin (47 / 2)\<rparr>"
proof -
  have p: "map_of [(u ''properties'', JObj [(u ''totalTime'', JInt 2400), (u ''totalDistance'', JInt 23456)])]
             (u ''properties'')
           = Some (JObj [(u ''totalTime'', JInt 2400), (u ''totalDistance'', JInt 23456)])"
    "map_of [(u ''totalTime'', JInt 2400), (u ''totalDistance'', JInt 23456)] (u ''totalTime'')
       = Some (JInt 2400)"
    "map_of [(u ''totalTime'', JInt 2400), (u ''totalDistance'', JInt 23456)] (u ''totalDistance'')
       = Some (JInt 23456)"
    by (simp_all add: u_simps)
  have b: "(0::int) \<le> 23456" "(23456::int) < 2 ^ 53" by simp_all
  from C5_drive_route_totals [OF route_payload_parts p b, of sample_rt]
  obtain k where
    c: "fst (car_try sample_rt (Reply 200 (Some (route_payload 2400 23456))))
        = Some \<lparr>time_min = 2400 div 60, distance_km = float_of_tenths k\<rparr>"
    and n: "nearest_tenths 23456 k"
    by blast
  from n have "k = 235" by (simp add: nearest_tenths_def)
  with c show ?thesis by (simp add: tenths_235)
qed

text \<open>
  Beyond \<open>2\<^sup>5\<^sup>3\<close> metres the quotient \<^verbatim>\<open>total_distance / 1000\<close> is itself rounded before
  \<^verbatim>\<open>round\<close> sees it: 17592186044416049 m are 17592186044416.049 km, which rounds to
  17592186044416.0, but the drive route carries 17592186044416.1 (the float
  \<open>2251799813685261 / 128\<close>).
\<close>

theorem C5_large_distance_counterexample:
  "fst (car_try sample_rt (Reply 200 (Some (route_payload 2400 17592186044416049))))
     = Some \<lparr>time_min = 40, distance_km = Fin (2251799813685261 / 128)\<rparr>
   \<and> nearest_tenths 17592186044416049 175921860444160
   \<and> float_of_tenths 175921860444160 = Fin 17592186044416
   \<and> \<not> (\<exists>k. nearest_tenths 17592186044416049 k
            \<and> float_of_tenths k = Fin (2251799813685261 / 128))"
proof -
  have 1: "fst (car_try sample_rt (Reply 200 (Some (route_payload 2400 17592186044416049))))
     = Some \<lparr>time_min = 40, distance_km = Fin (2251799813685261 / 128)\<rparr>"
    by (simp add: route_payload_car truediv_big round1_big)
  have 2: "k = 175921860444160" if "nearest_tenths 17592186044416049 k" for k
    using that by (simp add: nearest_tenths_def)
  have 3: "nearest_tenths 17592186044416049 175921860444160"
    by (simp add: nearest_tenths_def)
  have 4: "\<not> (\<exists>k. nearest_tenths 17592186044416049 k
            \<and> float_of_tenths k = Fin (2251799813685261 / 128))"
  proof
    assume "\<exists>k. nearest_tenths 17592186044416049 k
            \<and> float_of_tenths k = Fin (2251799813685261 / 128)"
    then obtain k where a: "nearest_tenths 17592186044416049 k"
      and b: "float_of_tenths k = Fin (2251799813685261 / 128)" by blast
    from 2 [OF a] b have "float_of_tenths 175921860444160 = Fin (2251799813685261 / 128)"
      by simp
    then show False by (simp add: tenths_big)
  qed
  from 1 3 4 show ?thesis by (simp add: tenths_big)
qed

section \<open>Walking estimate\<close>

text \<open>
  C7. For a \<^verbatim>\<open>walk\<close> request that reaches the routing step with a drive route of \<open>K\<close>
  tenths of a kilometre (\<open>0 \<le> K < 2\<^sup>4\<^sup>9\<close>), the duration shown is "about \<open>m\<close> minutes"
  where \<open>m\<close> is the walking time at 4 km/h, \<open>\<lfloor>distanceKm \<div> 4 \<times> 60\<rfloor>\<close>, or one minute less;
  it is exactly the walking time when \<open>K\<close> is odd or the distance is a whole number of
  kilometres.
\<close>

theorem C7_walk_duration:
  assumes "reaches_routing rt env up q" and "mode_of q = u ''walk''"
    and "fst (car_try rt (car_reply up)) = Some c"
    and "distance_km c = float_of_tenths K" and "0 \<le> K" and "K < 2 ^ 49"
  shows "\<exists>m. answer_field (get rt env up q) (u ''duration'')
               = Some (JStr (about_minutes (str_int m)))
           \<and> walk_estimate K - 1 \<le> m \<and> m \<le> walk_estimate K
           \<and> (odd K \<or> K mod 10 = 0 \<longrightarrow> m = walk_estimate K)"
proof -
  from walk_minutes_tenths [OF assms(5,6)] obtain m where
    m: "walk_minutes (float_of_tenths K) = Inr m"
    and b: "walk_estimate K - 1 \<le> m" "m \<le> walk_estimate K"
      "odd K \<or> K mod 10 = 0 \<longrightarrow> m = walk_estimate K" by blast
  from m have "walk_minutes (distance_km c) = Inr m" by (simp add: assms(4))
  with assms(1,2,3) have "answer_field (get rt env up q) (u ''duration'')
      = Some (JStr (about_minutes (str_int m)))" by (rule get_walk)
  with b show ?thesis by blast
qed

text \<open>A drive route of 8.0 km gives "about 120 minutes".\<close>

theorem C7_walk_duration_witness:
  "answer_field (get sample_rt sample_env
       (sample_upstream (Reply 200 (Some (route_payload 2400 8000)))) (sample_query ''walk''))
     (u ''duration'') = Some (JStr [50557, 32, 49, 50, 48, 48516])"
proof -
  let ?up = "sample_upstream (Reply 200 (Some (route_payload 2400 8000)))"
  have 1: "reaches_routing sample_rt sample_env ?up (sample_query ''walk'')"
    by (rule sample_reaches)
  have 2: "mode_of (sample_query ''walk'') = u ''walk''" by (rule sample_modes)
  have "fst (car_try sample_rt (Reply 200 (Some (route_payload 2400 (100 * 80)))))
      = Some \<lparr>time_min = 2400 div 60, distance_km = float_of_tenths 80\<rparr>"
    by (rule route_payload_exact) simp_all
  then have 3: "fst (car_try sample_rt (car_reply ?up))
      = Some \<lparr>time_min = 40, distance_km = float_of_tenths 80\<rparr>"
    by (simp add: sample_upstream_def)
  have 4: "distance_km \<lparr>time_min = 40, distance_km = float_of_tenths 80\<rparr> = float_of_tenths 80"
    by simp
  have 5: "(0::int) \<le> 80" "(80::int) < 2 ^ 49" by simp_all
  from C7_walk_duration [OF 1 2 3 4 5] obtain m where
    a: "answer_field (get sample_rt sample_env ?up (sample_query ''walk'')) (u ''duration'')
        = Some (JStr (about_minutes (str_int m)))"
    and e: "odd (80::int) \<or> (80::int) mod 10 = 0 \<longrightarrow> m = walk_estimate 80" by blast
  from e have "m = 120" by (simp add: walk_estimate_eq)
  with a show ?thesis by (simp add: about_minutes_def str_int_3digits u_simps)
qed

text \<open>
  A drive route of 8.2 km gives "about 122 minutes", while 8.2 km at 4 km/h are 123
  minutes: the float nearest to 8.2 lies below 8.2, and so does the product.
\<close>

theorem C7_walk_duration_counterexample:
  "fst (car_try sample_rt (Reply 200 (Some (route_payload 2400 8200))))
     = Some \<lparr>time_min = 40, distance_km = float_of_tenths 82\<rparr>
   \<and> answer_field (get sample_rt sample_env
         (sample_upstream (Reply 200 (Some (route_payload 2400 8200)))) (sample_query ''walk''))
       (u ''duration'') = Some (JStr [50557, 32, 49, 50, 50, 48516])
   \<and> walk_estimate 82 = 123"
proof -
  let ?up = "sample_upstream (Reply 200 (Some (route_payload 2400 8200)))"
  have 1: "reaches_routing sample_rt sample_env ?up (sample_query ''walk'')"
    by (rule sample_reaches)
  have 2: "mode_of (sample_query ''walk'') = u ''walk''" by (rule sample_modes)
  have "fst (car_try sample_rt (Reply 200 (Some (route_payload 2400 (100 * 82)))))
      = Some \<lparr>time_min = 2400 div 60, distance_km = float_of_tenths 82\<rparr>"
    by (rule route_payload_exact) simp_all
  then have c: "fst (car_try sample_rt (Reply 200 (Some (route_payload 2400 8200))))
      = Some \<lparr>time_min = 40, distance_km = float_of_tenths 82\<rparr>" by simp
  then have 3: "fst (car_try sample_rt (car_reply ?up))
      = Some \<lparr>time_min = 40, distance_km = float_of_tenths 82\<rparr>"
    by (simp add: sample_upstream_def)
  have 4: "walk_minutes (distance_km \<lparr>time_min = 40, distance_km = float_of_tenths 82\<rparr>) = Inr 122"
    by (simp add: walk_minutes_82)
  have "answer_field (get sample_rt sample_env ?up (sample_query ''walk'')) (u ''duration'')
      = Some (JStr (about_minutes (str_int 122)))"
    using 1 2 3 4 by (rule get_walk)
  then have a: "answer_field (get sample_rt sample_env ?up (sample_query ''walk'')) (u ''duration'')
      = Some (JStr [50557, 32, 49, 50, 50, 48516])"
    by (simp add: about_minutes_def str_int_3digits u_simps)
  have w: "walk_estimate 82 = 123" by (simp add: walk_estimate_eq)
  from c a w show ?thesis by blast
qed

section \<open>Status and shape of every response\<close>

text \<open>
  C3. Every run of the handler either returns a response with status 200 whose body
  has exactly the keys \<^verbatim>\<open>duration\<close>, \<^verbatim>\<open>distance\<close>, \<^verbatim>\<open>steps\<close> and \<^verbatim>\<open>raw\<close>, or it is a \<^verbatim>\<open>walk\<close>
  request that leaves the handler with an \<^verbatim>\<open>OverflowError\<close>: the conversion
  \<^verbatim>\<open>int(car_info["distance_km"] / 4 * 60)\<close> is outside every \<^verbatim>\<open>try\<close> block.
\<close>

theorem C3_response_or_walk_overflow:
  "(\<exists>resp. get rt env up q = Inr resp \<and> status resp = 200
       \<and> keys (data resp) = [u ''duration'', u ''distance'', u ''steps'', u ''raw''])
   \<or> (get rt env up q = Inl OverflowError \<and> mode_of q = u ''walk'')"
proof (cases "reaches_routing rt env up q")
  case False
  from get_early [OF this] obtain st r where
    "get rt env up q = Inr (route_response JNull JNull st r)" by blast
  then show ?thesis by (simp add: field_route_response)
next
  case True
  let ?ci = "fst (car_try rt (car_reply up))"
  let ?s = "shape rt (mode_of q) (departure_of q) (destination_of q) ?ci
              (fst (transit_try rt (transit_reply up)))
              (fst (snd (transit_try rt (transit_reply up))))"
  show ?thesis
  proof (cases ?s)
    case (Inr shaped)
    from get_shaped [OF True Inr] obtain du di st r where
      "get rt env up q = Inr (route_response du di st r)" by blast
    then show ?thesis by (simp add: field_route_response)
  next
    case (Inl e)
    from shape_raises [OF Inl] obtain c where
      m: "mode_of q = u ''walk''" and c: "?ci = Some c"
      and w: "walk_minutes (distance_km c) = Inl e" by blast
    from car_try_info [OF c] obtain features where "car_info_of rt features = Inr c" ..
    then have "distance_km c \<noteq> NaN" by (rule car_info_of_not_nan)
    from walk_minutes_cases [OF this] w have "e = OverflowError" by auto
    moreover have "get rt env up q = Inl e"
      by (simp add: get_routing [OF True] Inl bind_exn_def)
    ultimately show ?thesis using m by simp
  qed
qed

text \<open>
  A \<^verbatim>\<open>walk\<close> request for which the driving provider reports a total distance of
  \<open>2\<^sup>1\<^sup>0\<^sup>2\<^sup>3 \<times> 1000\<close> metres: \<^verbatim>\<open>distance_km\<close> is \<open>2\<^sup>1\<^sup>0\<^sup>2\<^sup>3\<close>, the product with 60 is infinite, and
  \<^verbatim>\<open>int\<close> raises.
\<close>

theorem C3_walk_overflow_escapes:
  "get sample_rt sample_env
     (sample_upstream (Reply 200 (Some (route_payload 2400 (2 ^ 1023 * 1000)))))
     (sample_query ''walk'') = Inl OverflowError"
proof -
  let ?up = "sample_upstream (Reply 200 (Some (route_payload 2400 (2 ^ 1023 * 1000))))"
  have 1: "reaches_routing sample_rt sample_env ?up (sample_query ''walk'')"
    by (rule sample_reaches)
  have 2: "mode_of (sample_query ''walk'') = u ''walk''" by (rule sample_modes)
  have "fst (car_try sample_rt (Reply 200 (Some (route_payload 2400 (2 ^ 1023 * 1000)))))
      = Some \<lparr>time_min = 2400 div 60, distance_km = Fin (pow2 1023)\<rparr>"
    by (simp only: route_payload_car huge_truediv sum.case huge_round1)
  then have 3: "fst (car_try sample_rt (car_reply ?up))
      = Some \<lparr>time_min = 2400 div 60, distance_km = Fin (pow2 1023)\<rparr>"
    by (simp add: sample_upstream_def)
  show ?thesis
    unfolding get_routing [OF 1] 2 3 shape_walk
    by (simp add: huge_walk bind_exn_def)
qed

section \<open>Weather is best effort\<close>

text \<open>
  C9. For a \<^verbatim>\<open>car\<close> request that reaches the routing step and whose driving-route query
  succeeds, a failing weather lookup leaves the result a success: \<^verbatim>\<open>duration\<close>,
  \<^verbatim>\<open>distance\<close> and \<^verbatim>\<open>steps\<close> are the ones shaped from the drive route, they are the same
  for every other answer of the weather provider, and the weather failure is recorded
  as the first note of the debug bundle (followed only by the transit note, if the
  transit query failed).
\<close>

theorem C9_weather_failure_is_not_fatal:
  assumes "reaches_routing rt env up q" and "mode_of q = u ''car''"
    and "car_try rt (car_reply up) = (Some c, path, None)"
    and "OPENWEATHER_API_KEY env \<noteq> []" and "weather_try (weather_reply up) = Inl e"
  shows "answer_field (get rt env up q) (u ''duration'')
           = Some (JStr (about_minutes (str_int (time_min c))))
       \<and> answer_field (get rt env up q) (u ''distance'')
           = Some (JStr (km_text (repr_float (distance_km c))))
       \<and> answer_field (get rt env up q) (u ''steps'')
           = Some (JArr (map JStr (car_steps (departure_of q) (repr_float (distance_km c))
                                      (destination_of q))))
       \<and> (\<forall>w. answer_field (get rt env (up\<lparr>weather_reply := w\<rparr>) q) (u ''duration'')
                 = answer_field (get rt env up q) (u ''duration'')
              \<and> answer_field (get rt env (up\<lparr>weather_reply := w\<rparr>) q) (u ''distance'')
                 = answer_field (get rt env up q) (u ''distance'')
              \<and> answer_field (get rt env (up\<lparr>weather_reply := w\<rparr>) q) (u ''steps'')
                 = answer_field (get rt env up q) (u ''steps''))
       \<and> answer_notes (get rt env up q)
           = Some (JArr (JStr msg_weather_failed #
                (if snd (snd (transit_try rt (transit_reply up))) \<noteq> None
                 then [JStr msg_transit_failed] else [])))"
proof -
  from assms(3) have c: "fst (car_try rt (car_reply up)) = Some c"
    and x: "snd (snd (car_try rt (car_reply up))) = None" by simp_all
  note g = get_car [OF assms(1,2) c]
  have gw: "get rt env (up\<lparr>weather_reply := w\<rparr>) q =
      Inr (route_response (JStr (about_minutes (str_int (time_min c))))
             (JStr (km_text (repr_float (distance_km c))))
             (car_steps (departure_of q) (repr_float (distance_km c)) (destination_of q))
             (gathered rt env (up\<lparr>weather_reply := w\<rparr>) q))" for w
    by (rule get_car) (simp_all add: reaches_routing_weather assms(1,2) c)
  have n: "answer_notes (get rt env up q)
      = Some (JArr (JStr msg_weather_failed #
                (if snd (snd (transit_try rt (transit_reply up))) \<noteq> None
                 then [JStr msg_transit_failed] else [])))"
    using assms(4,5) x
    by (simp add: g answer_notes_def error_notes_route_response gathered_fields)
  show ?thesis
    by (simp add: n) (simp add: g gw answer_field_def field_route_response)
qed

text \<open>
  A request by car from A to B with a drive route of 2400 s and a weather provider
  that cannot be reached: the duration is "about 40 minutes".
\<close>

theorem C9_weather_failure_witness:
  "answer_field (get sample_rt sample_env
       (sample_upstream (Reply 200 (Some (route_payload 2400 0)))) (sample_query ''car''))
     (u ''duration'') = Some (JStr [50557, 32, 52, 48, 48516])
   \<and> answer_field (get sample_rt sample_env
       (sample_upstream (Reply 200 (Some (route_payload 2400 0)))) (sample_query ''car''))
     (u ''distance'') = Some (JStr (u ''0.0 km''))
   \<and> answer_notes (get sample_rt sample_env
       (sample_upstream (Reply 200 (Some (route_payload 2400 0)))) (sample_query ''car''))
     = Some (JArr [JStr msg_weather_failed, JStr msg_transit_failed])"
proof -
  let ?up = "sample_upstream (Reply 200 (Some (route_payload 2400 0)))"
  have 1: "reaches_routing sample_rt sample_env ?up (sample_query ''car'')"
    by (rule sample_reaches)
  have 2: "mode_of (sample_query ''car'') = u ''car''" by (rule sample_modes)
  have 3: "car_try sample_rt (car_reply ?up)
      = (Some \<lparr>time_min = 2400 div 60, distance_km = Fin 0\<rparr>, [], None)"
    by (simp only: sample_upstream_def upstream.simps route_payload_zero)
  have 4: "OPENWEATHER_API_KEY sample_env \<noteq> []" by (simp add: sample_env_def u_simps)
  have 5: "weather_try (weather_reply ?up) = Inl RequestException"
    by (simp add: sample_upstream_def weather_try_def fetch_json_def bind_exn_def)
  have 6: "snd (snd (transit_try sample_rt (transit_reply ?up))) \<noteq> None"
    by (simp add: sample_upstream_def transit_try_def fetch_json_def bind_exn_def)
  have 7: "about_minutes (str_int (2400 div 60)) = [50557, 32, 52, 48, 48516]"
    by (simp add: about_minutes_def str_int_def digits.simps u_simps)
  have 8: "km_text (repr_float (Fin 0)) = u ''0.0 km''"
    by (simp add: km_text_def repr_float_0 u_simps)
  from C9_weather_failure_is_not_fatal [OF 1 2 3 4 5] 6 7 8 show ?thesis by simp
qed

section \<open>The mode parameter\<close>

text \<open>
  C1. An absent or empty \<^verbatim>\<open>mode\<close> parameter is answered like \<^verbatim>\<open>mode=car\<close>. A mode that,
  after trimming, is none of \<^verbatim>\<open>car\<close>, \<^verbatim>\<open>transit\<close>, \<^verbatim>\<open>walk\<close> is not treated as \<^verbatim>\<open>car\<close>: a
  request that reaches the routing step gets status 200 with \<^verbatim>\<open>duration\<close> and
  \<^verbatim>\<open>distance\<close> null, no steps, and the no-route note after the notes of the lookups.
\<close>

theorem C1_unrecognized_mode_finds_no_route:
  assumes "reaches_routing rt env up q"
    and "mode_of q \<noteq> u ''car''" "mode_of q \<noteq> u ''transit''" "mode_of q \<noteq> u ''walk''"
  shows "get rt env up q =
           Inr (route_response JNull JNull [] (add_error msg_no_route (gathered rt env up q)))
       \<and> answer_field (get rt env up q) (u ''duration'') = Some JNull
       \<and> answer_field (get rt env up q) (u ''distance'') = Some JNull
       \<and> answer_field (get rt env up q) (u ''steps'') = Some (JArr [])
       \<and> answer_notes (get rt env up q)
           = Some (JArr (map JStr (r_errors (gathered rt env up q) @ [msg_no_route])))
       \<and> get rt env up (q\<lparr>q_mode := None\<rparr>) = get rt env up (q\<lparr>q_mode := Some (u ''car'')\<rparr>)
       \<and> get rt env up (q\<lparr>q_mode := Some []\<rparr>) = get rt env up (q\<lparr>q_mode := Some (u ''car'')\<rparr>)"
proof -
  have g: "get rt env up q =
      Inr (route_response JNull JNull [] (add_error msg_no_route (gathered rt env up q)))"
    using assms(1) by (rule get_no_route) (rule shape_unrecognized [OF assms(2,3,4)])
  have a: "get rt env up (q\<lparr>q_mode := None\<rparr>) = get rt env up (q\<lparr>q_mode := Some (u ''car'')\<rparr>)"
    by (rule get_cong_query) (simp_all add: mode_of_absent, simp_all add: departure_of_def destination_of_def)
  have b: "get rt env up (q\<lparr>q_mode := Some []\<rparr>) = get rt env up (q\<lparr>q_mode := Some (u ''car'')\<rparr>)"
    by (rule get_cong_query) (simp_all add: mode_of_absent, simp_all add: departure_of_def destination_of_def)
  have f: "answer_field (get rt env up q) (u ''duration'') = Some JNull"
    "answer_field (get rt env up q) (u ''distance'') = Some JNull"
    "answer_field (get rt env up q) (u ''steps'') = Some (JArr [])"
    by (simp_all add: g answer_field_def field_route_response)
  have n: "answer_notes (get rt env up q)
      = Some (JArr (map JStr (r_errors (gathered rt env up q) @ [msg_no_route])))"
    by (simp add: g answer_notes_def error_notes_route_response add_error_def)
  from g f n a b show ?thesis by blast
qed

text \<open>
  The request from A to B with \<^verbatim>\<open>mode=bike\<close>, a drive route of 2400 s, and weather and
  transit providers that cannot be reached.
\<close>

theorem C1_unrecognized_mode_witness:
  "answer_field (get sample_rt sample_env
       (sample_upstream (Reply 200 (Some (route_payload 2400 0)))) (sample_query ''bike''))
     (u ''duration'') = Some JNull
   \<and> answer_field (get sample_rt sample_env
       (sample_upstream (Reply 200 (Some (route_payload 2400 0)))) (sample_query ''bike''))
     (u ''steps'') = Some (JArr [])
   \<and> answer_notes (get sample_rt sample_env
       (sample_upstream (Reply 200 (Some (route_payload 2400 0)))) (sample_query ''bike''))
     = Some (JArr [JStr msg_weather_failed, JStr msg_transit_failed, JStr msg_no_route])"
proof -
  let ?up = "sample_upstream (Reply 200 (Some (route_payload 2400 0)))"
  have 1: "reaches_routing sample_rt sample_env ?up (sample_query ''bike'')"
    by (rule sample_reaches)
  have 2: "mode_of (sample_query ''bike'') \<noteq> u ''car''"
    "mode_of (sample_query ''bike'') \<noteq> u ''transit''"
    "mode_of (sample_query ''bike'') \<noteq> u ''walk''"
    by (simp_all add: sample_modes u_simps)
  have e: "r_errors (gathered sample_rt sample_env ?up (sample_query ''bike''))
      = [msg_weather_failed, msg_transit_failed]"
    by (simp add: gathered_fields sample_side_replies route_payload_zero)
  note t = C1_unrecognized_mode_finds_no_route [OF 1 2]
  from t have d: "answer_field (get sample_rt sample_env ?up (sample_query ''bike''))
      (u ''duration'') = Some JNull" by blast
  from t have s: "answer_field (get sample_rt sample_env ?up (sample_query ''bike''))
      (u ''steps'') = Some (JArr [])" by blast
  from t have "answer_notes (get sample_rt sample_env ?up (sample_query ''bike''))
      = Some (JArr (map JStr (r_errors (gathered sample_rt sample_env ?up (sample_query ''bike''))
                              @ [msg_no_route])))" by blast
  then have n: "answer_notes (get sample_rt sample_env ?up (sample_query ''bike''))
      = Some (JArr [JStr msg_weather_failed, JStr msg_transit_failed, JStr msg_no_route])"
    by (simp add: e)
  from d s n show ?thesis by blast
qed

text \<open>
  The same request gets "about 40 minutes" with \<^verbatim>\<open>mode=car\<close> and the no-route answer
  with \<^verbatim>\<open>mode=bike\<close>.
\<close>

theorem C1_bike_is_not_car_counterexample:
  "answer_field (get sample_rt sample_env
       (sample_upstream (Reply 200 (Some (route_payload 2400 0)))) (sample_query ''car''))
     (u ''duration'') = Some (JStr [50557, 32, 52, 48, 48516])
   \<and> answer_field (get sample_rt sample_env
       (sample_upstream (Reply 200 (Some (route_payload 2400 0)))) (sample_query ''bike''))
     (u ''duration'') = Some JNull
   \<and> get sample_rt sample_env
       (sample_upstream (Reply 200 (Some (route_payload 2400 0)))) (sample_query ''bike'')
     \<noteq> get sample_rt sample_env
       (sample_upstream (Reply 200 (Some (route_payload 2400 0)))) (sample_query ''car'')"
proof -
  let ?up = "sample_upstream (Reply 200 (Some (route_payload 2400 0)))"
  have c: "fst (car_try sample_rt (car_reply ?up))
      = Some \<lparr>time_min = 2400 div 60, distance_km = Fin 0\<rparr>"
    by (simp add: sample_side_replies route_payload_zero)
  have "get sample_rt sample_env ?up (sample_query ''car'') =
      Inr (route_response
             (JStr (about_minutes (str_int (time_min \<lparr>time_min = 2400 div 60, distance_km = Fin 0\<rparr>))))
             (JStr (km_text (repr_float (distance_km \<lparr>time_min = 2400 div 60, distance_km = Fin 0\<rparr>))))
             (car_steps (departure_of (sample_query ''car''))
                (repr_float (distance_km \<lparr>time_min = 2400 div 60, distance_km = Fin 0\<rparr>))
                (destination_of (sample_query ''car'')))
             (gathered sample_rt sample_env ?up (sample_query ''car'')))"
    using sample_reaches sample_modes(1) c by (rule get_car)
  then have "answer_field (get sample_rt sample_env ?up (sample_query ''car'')) (u ''duration'')
      = Some (JStr (about_minutes (str_int (2400 div 60))))"
    by (simp add: answer_field_def field_route_response)
  then have 1: "answer_field (get sample_rt sample_env ?up (sample_query ''car'')) (u ''duration'')
      = Some (JStr [50557, 32, 52, 48, 48516])"
    by (simp add: about_minutes_def str_int_def digits.simps u_simps)
  have s: "shape sample_rt (mode_of (sample_query ''bike'')) (departure_of (sample_query ''bike''))
             (destination_of (sample_query ''bike'')) (fst (car_try sample_rt (car_reply ?up)))
             (fst (transit_try sample_rt (transit_reply ?up)))
             (fst (snd (transit_try sample_rt (transit_reply ?up)))) = Inr None"
    by (rule shape_unrecognized) (simp_all add: sample_modes u_simps)
  have "get sample_rt sample_env ?up (sample_query ''bike'') =
      Inr (route_response JNull JNull []
             (add_error msg_no_route (gathered sample_rt sample_env ?up (sample_query ''bike''))))"
    using sample_reaches s by (rule get_no_route)
  then have 2: "answer_field (get sample_rt sample_env ?up (sample_query ''bike'')) (u ''duration'')
      = Some JNull"
    by (simp add: answer_field_def field_route_response)
  from 1 2 have "get sample_rt sample_env ?up (sample_query ''bike'')
      \<noteq> get sample_rt sample_env ?up (sample_query ''car'')" by auto
  with 1 2 show ?thesis by blast
qed

section \<open>Failure of the driving route\<close>

text \<open>
  C2. When the driving-route request fails in transport, by its status, or by a body
  that is not JSON, the step records no drive route and appends the driving-failure
  note. When the provider answers with an object whose \<^verbatim>\<open>features\<close> are missing or an
  empty list, the step records no drive route and appends \<^emph>\<open>no\<close> note. In every case the
  step returns a bundle whose notes are the old ones, followed by at most that note.
\<close>

theorem C2_driving_failure_notes:
  "(\<forall>e. fetch_json reply = Inl e \<longrightarrow>
       car_step rt reply r = (add_error msg_car_failed r)\<lparr>r_car_info := None, r_car_path := []\<rparr>)
   \<and> (\<forall>kvs. fetch_json reply = Inr (JObj kvs)
         \<and> (map_of kvs (u ''features'') = None \<or> map_of kvs (u ''features'') = Some (JArr []))
       \<longrightarrow> car_step rt reply r = r\<lparr>r_car_info := None, r_car_path := []\<rparr>)
   \<and> (r_errors (car_step rt reply r) = r_errors r
        \<or> r_errors (car_step rt reply r) = r_errors r @ [msg_car_failed])"
proof -
  have 1: "car_step rt reply r = (add_error msg_car_failed r)\<lparr>r_car_info := None, r_car_path := []\<rparr>"
    if "fetch_json reply = Inl e" for e
    using car_try_fetch_fails [OF that] by (rule car_step_result)
  have 2: "car_step rt reply r = r\<lparr>r_car_info := None, r_car_path := []\<rparr>"
    if "fetch_json reply = Inr (JObj kvs)
         \<and> (map_of kvs (u ''features'') = None \<or> map_of kvs (u ''features'') = Some (JArr []))"
    for kvs
    using that by (intro car_step_result car_try_no_features) blast+
  have 3: "r_errors (car_step rt reply r) = r_errors r
        \<or> r_errors (car_step rt reply r) = r_errors r @ [msg_car_failed]"
    by (simp add: car_step_fields)
  from 1 2 3 show ?thesis by blast
qed

text \<open>
  A provider that cannot be reached: no drive route, one note. An answer without
  \<^verbatim>\<open>features\<close>: no drive route, no note.
\<close>

theorem C2_driving_failure_witness:
  "car_step sample_rt ConnFail (initial_bundle sample_env (sample_query ''car''))
     = (add_error msg_car_failed (initial_bundle sample_env (sample_query ''car'')))
         \<lparr>r_car_info := None, r_car_path := []\<rparr>
   \<and> r_errors (car_step sample_rt ConnFail (initial_bundle sample_env (sample_query ''car'')))
     = [msg_car_failed]
   \<and> car_step sample_rt (Reply 200 (Some (JObj [])))
       (initial_bundle sample_env (sample_query ''car''))
     = (initial_bundle sample_env (sample_query ''car''))\<lparr>r_car_info := None, r_car_path := []\<rparr>"
proof -
  let ?r = "initial_bundle sample_env (sample_query ''car'')"
  have f: "fetch_json ConnFail = Inl RequestException" by (simp add: fetch_json_def)
  from C2_driving_failure_notes [of ConnFail sample_rt ?r] f
  have a: "car_step sample_rt ConnFail ?r
      = (add_error msg_car_failed ?r)\<lparr>r_car_info := None, r_car_path := []\<rparr>" by blast
  have b: "r_errors (car_step sample_rt ConnFail ?r) = [msg_car_failed]"
    unfolding a by (simp add: add_error_def initial_bundle_def)
  have g: "fetch_json (Reply 200 (Some (JObj []))) = Inr (JObj [])
      \<and> (map_of [] (u ''features'') = None \<or> map_of [] (u ''features'') = Some (JArr []))"
    by (simp add: fetch_json_def)
  from C2_driving_failure_notes [of "Reply 200 (Some (JObj []))" sample_rt ?r] g
  have c: "car_step sample_rt (Reply 200 (Some (JObj []))) ?r
      = ?r\<lparr>r_car_info := None, r_car_path := []\<rparr>" by blast
  from a b c show ?thesis by blast
qed

text \<open>
  The provider answers \<^verbatim>\<open>{"features": []}\<close> with status 200: the \<^verbatim>\<open>try\<close> block ends
  without an exception, \<^verbatim>\<open>car_info\<close> is \<^verbatim>\<open>None\<close> and no driving-failure note is appended;
  the \<^verbatim>\<open>car\<close> request then carries only the weather, transit and no-route notes.
\<close>

theorem C2_empty_features_counterexample:
  "car_try sample_rt (Reply 200 (Some (JObj [(u ''features'', JArr [])]))) = (None, [], None)
   \<and> r_car_info (car_step sample_rt (Reply 200 (Some (JObj [(u ''features'', JArr [])])))
        (initial_bundle sample_env (sample_query ''car''))) = None
   \<and> r_errors (car_step sample_rt (Reply 200 (Some (JObj [(u ''features'', JArr [])])))
        (initial_bundle sample_env (sample_query ''car''))) = []
   \<and> answer_notes (get sample_rt sample_env
        (sample_upstream (Reply 200 (Some (JObj [(u ''features'', JArr [])]))))
        (sample_query ''car''))
     = Some (JArr [JStr msg_weather_failed, JStr msg_transit_failed, JStr msg_no_route])"
proof -
  let ?c = "Reply 200 (Some (JObj [(u ''features'', JArr [])]))"
  let ?up = "sample_upstream ?c"
  let ?r = "initial_bundle sample_env (sample_query ''car'')"
  have t: "car_try sample_rt ?c = (None, [], None)"
    by (rule car_try_no_features [where kvs = "[(u ''features'', JArr [])]"])
       (simp_all add: fetch_json_def)
  have s: "car_step sample_rt ?c ?r = ?r\<lparr>r_car_info := None, r_car_path := []\<rparr>"
    using t by (rule car_step_result)
  have i: "r_car_info (car_step sample_rt ?c ?r) = None" by (simp add: s)
  have e: "r_errors (car_step sample_rt ?c ?r) = []"
    unfolding s by (simp add: initial_bundle_def)
  have sh: "shape sample_rt (mode_of (sample_query ''car'')) (departure_of (sample_query ''car''))
             (destination_of (sample_query ''car'')) (fst (car_try sample_rt (car_reply ?up)))
             (fst (transit_try sample_rt (transit_reply ?up)))
             (fst (snd (transit_try sample_rt (transit_reply ?up)))) = Inr None"
    by (simp only: sample_side_replies t fst_conv sample_modes shape_no_data)
  note g = get_no_route [OF sample_reaches sh]
  have "r_errors (gathered sample_rt sample_env ?up (sample_query ''car''))
      = [msg_weather_failed, msg_transit_failed]"
    by (simp add: gathered_fields sample_side_replies t)
  then have n: "answer_notes (get sample_rt sample_env ?up (sample_query ''car''))
      = Some (JArr [JStr msg_weather_failed, JStr msg_transit_failed, JStr msg_no_route])"
    by (simp add: g answer_notes_def error_notes_route_response add_error_def)
  from t i e n show ?thesis by blast
qed

section \<open>Summary of a transit leg\<close>



section \<open>Field fallback of geocoding\<close>

text \<open>
  C8. For a provider answer whose best match is the object \<open>poi\<close>, geocoding resolves
  the latitude from the keys \<^verbatim>\<open>frontLat\<close>, \<^verbatim>\<open>frontlat\<close>, \<^verbatim>\<open>noorLat\<close>, \<^verbatim>\<open>lat\<close> in this order, and
  the longitude from \<^verbatim>\<open>frontLon\<close>, \<^verbatim>\<open>frontlon\<close>, \<^verbatim>\<open>noorLon\<close>, \<^verbatim>\<open>lon\<close>: the first truthy value
  wins (a value that is present but null, zero or empty is passed over) and the last
  key is read as it is. When every value present under these keys is truthy, this is
  the first present value.
\<close>

theorem C8_geocode_field_fallback:
  assumes "keyword \<noteq> []" and "app_key \<noteq> []"
  shows "tmap_geocode rt keyword app_key (Reply 200 (Some (poi_payload (JObj poi))))
           = coordinate rt (first_truthy poi lat_keys) (first_truthy poi lon_keys)
       \<and> ((\<forall>k\<in>set lat_keys. \<forall>v. map_of poi k = Some v \<longrightarrow> truthy v)
            \<longrightarrow> first_truthy poi lat_keys = first_present poi lat_keys)
       \<and> ((\<forall>k\<in>set lon_keys. \<forall>v. map_of poi k = Some v \<longrightarrow> truthy v)
            \<longrightarrow> first_truthy poi lon_keys = first_present poi lon_keys)"
  using geocode_poi [OF assms] first_truthy_present [of lat_keys poi]
    first_truthy_present [of lon_keys poi]
  by blast

text \<open>
  A best match that carries only \<^verbatim>\<open>noorLat\<close> and \<^verbatim>\<open>noorLon\<close> (besides its name) resolves
  to that coordinate.
\<close>

theorem C8_geocode_field_fallback_witness:
  "tmap_geocode sample_rt (u ''A'') (u ''key'') (Reply 200 (Some (poi_payload noor_poi)))
     = Some (Fin (75 / 2), Fin 127)"
proof -
  let ?poi = "[(u ''name'', JStr (u ''A'')),
               (u ''noorLat'', JFloat (Fin (75 / 2))), (u ''noorLon'', JFloat (Fin 127))]"
  have k: "u ''A'' \<noteq> []" "u ''key'' \<noteq> []" by (simp_all add: u_simps)
  have c: "coordinate sample_rt (first_truthy ?poi lat_keys) (first_truthy ?poi lon_keys)
      = Some (Fin (75 / 2), Fin 127)"
    by (simp add: lat_keys_def lon_keys_def coordinate_def py_float_def u_simps)
  from C8_geocode_field_fallback [OF k, of sample_rt ?poi] c
  show ?thesis by (simp only: noor_poi_def)
qed

text \<open>
  A best match with \<^verbatim>\<open>frontLat\<close> 0.0 and \<^verbatim>\<open>noorLat\<close> 37.5: the first present latitude is
  0.0, but the \<^verbatim>\<open>or\<close> chain passes over it and geocoding returns the latitude 37.5.
\<close>

theorem C8_zero_latitude_counterexample:
  "first_present [(u ''frontLat'', JFloat (Fin 0)), (u ''frontLon'', JFloat (Fin 127)),
                  (u ''noorLat'', JFloat (Fin (75 / 2))), (u ''noorLon'', JFloat (Fin 127))]
       lat_keys = JFloat (Fin 0)
   \<and> coordinate sample_rt
       (first_present [(u ''frontLat'', JFloat (Fin 0)), (u ''frontLon'', JFloat (Fin 127)),
                       (u ''noorLat'', JFloat (Fin (75 / 2))), (u ''noorLon'', JFloat (Fin 127))]
          lat_keys)
       (first_present [(u ''frontLat'', JFloat (Fin 0)), (u ''frontLon'', JFloat (Fin 127)),
                       (u ''noorLat'', JFloat (Fin (75 / 2))), (u ''noorLon'', JFloat (Fin 127))]
          lon_keys) = Some (Fin 0, Fin 127)
   \<and> tmap_geocode sample_rt (u ''A'') (u ''key'')
       (Reply 200 (Some (poi_payload (JObj
          [(u ''frontLat'', JFloat (Fin 0)), (u ''frontLon'', JFloat (Fin 127)),
           (u ''noorLat'', JFloat (Fin (75 / 2))), (u ''noorLon'', JFloat (Fin 127))]))))
     = Some (Fin (75 / 2), Fin 127)"
proof -
  let ?poi = "[(u ''frontLat'', JFloat (Fin 0)), (u ''frontLon'', JFloat (Fin 127)),
               (u ''noorLat'', JFloat (Fin (75 / 2))), (u ''noorLon'', JFloat (Fin 127))]"
  have k: "u ''A'' \<noteq> []" "u ''key'' \<noteq> []" by (simp_all add: u_simps)
  have 1: "first_present ?poi lat_keys = JFloat (Fin 0)"
    by (simp add: lat_keys_def u_simps)
  have 2: "first_present ?poi lon_keys = JFloat (Fin 127)"
    by (simp add: lon_keys_def u_simps)
  have 3: "coordinate sample_rt (JFloat (Fin 0)) (JFloat (Fin 127)) = Some (Fin 0, Fin 127)"
    by (simp add: coordinate_def py_float_def)
  have 4: "coordinate sample_rt (first_truthy ?poi lat_keys) (first_truthy ?poi lon_keys)
      = Some (Fin (75 / 2), Fin 127)"
    by (simp add: lat_keys_def lon_keys_def coordinate_def py_float_def u_simps)
  have 5: "tmap_geocode sample_rt (u ''A'') (u ''key'') (Reply 200 (Some (poi_payload (JObj ?poi))))
      = Some (Fin (75 / 2), Fin 127)"
    using geocode_poi [OF k, of sample_rt ?poi] 4 by simp
  from 3 have 6: "coordinate sample_rt (first_present ?poi lat_keys) (first_present ?poi lon_keys)
      = Some (Fin 0, Fin 127)" by (simp only: 1 2)
  from 1 6 5 show ?thesis by blast
qed

end
